theory Spec2Isabelle
  imports Complex_Main
begin

section \<open>Conventions of the embedding\<close>

text \<open>
  The theory embeds the project orchestration of \<^verbatim>\<open>src/camotics/sim/Project.cpp\<close> and the
  tool geometry of \<^verbatim>\<open>src/camotics/sim/Tool.cpp\<close>.

  \<^item> In the project part a C++ \<^verbatim>\<open>double\<close> is modelled by a \<^typ>\<open>real\<close>: arithmetic is
    exact, there is no NaN, no infinity and no rounding, and every statement there about a
    number is a statement in exact arithmetic.
  \<^item> In the tool part a \<^verbatim>\<open>double\<close> is a \<^typ>\<open>real\<close> that the rounding function \<open>fl\<close> leaves
    unchanged, and every arithmetic operation of the source is the exact operation followed
    by \<open>fl\<close>, as IEEE 754 prescribes.  The C library functions \<^verbatim>\<open>atan\<close> and \<^verbatim>\<open>tan\<close>, whose
    rounding the standard leaves open, are parameters.
  \<^item> A \<^verbatim>\<open>std::string\<close> is a \<^typ>\<open>string\<close>, a list of 8-bit characters.
  \<^item> A C++ exception is a value \<open>Inl e\<close> of a sum type; a normal return is \<open>Inr r\<close>.
  \<^item> A method that mutates its object takes the object and returns the new one.
\<close>

section \<open>Geometry: vectors and axis-aligned rectangles\<close>

text \<open>
  \<^verbatim>\<open>cb::Vector3D\<close> and \<^verbatim>\<open>cb::Rectangle3D\<close> are types of the cbang library and are not
  under \<^verbatim>\<open>src/\<close>.  Their operations are modelled as the code uses them: a vector is
  three coordinates, a rectangle is a minimum and a maximum corner.
\<close>

datatype Vector3D = Vector3D (vec_x: real) (vec_y: real) (vec_z: real)

definition Vector3D_zero :: Vector3D where
  \<comment> \<open>Modelled from the spec: \<^verbatim>\<open>cb::Vector3D()\<close>, the default-constructed vector.\<close>
  "Vector3D_zero = Vector3D 0 0 0"

definition vec_add :: "Vector3D \<Rightarrow> Vector3D \<Rightarrow> Vector3D" where
  "vec_add a b = Vector3D (vec_x a + vec_x b) (vec_y a + vec_y b) (vec_z a + vec_z b)"

definition vec_sub :: "Vector3D \<Rightarrow> Vector3D \<Rightarrow> Vector3D" where
  "vec_sub a b = Vector3D (vec_x a - vec_x b) (vec_y a - vec_y b) (vec_z a - vec_z b)"

definition vec_mul :: "Vector3D \<Rightarrow> real \<Rightarrow> Vector3D" where
  "vec_mul a k = Vector3D (vec_x a * k) (vec_y a * k) (vec_z a * k)"

definition vec_div :: "Vector3D \<Rightarrow> real \<Rightarrow> Vector3D" where
  "vec_div a k = Vector3D (vec_x a / k) (vec_y a / k) (vec_z a / k)"

record Rectangle3D =
  rmin :: Vector3D
  rmax :: Vector3D

definition DBL_MAX :: real where
  \<comment> \<open>\<^verbatim>\<open>std::numeric_limits<double>::max()\<close>, the largest finite IEEE-754 double.\<close>
  "DBL_MAX = (2 - 1 / 2 ^ 52) * 2 ^ 1023"

definition Rectangle3D_default :: Rectangle3D where
  \<comment> \<open>Modelled from the spec: \<^verbatim>\<open>cb::Rectangle3D()\<close>, the default-constructed rectangle
      (cbang, not under \<^verbatim>\<open>src/\<close>).  It is the start value of a running union: the
      minimum corner is the largest double and the maximum corner its negation, so that
      the first point added replaces both.\<close>
  "Rectangle3D_default =
     \<lparr>rmin = Vector3D DBL_MAX DBL_MAX DBL_MAX,
      rmax = Vector3D (- DBL_MAX) (- DBL_MAX) (- DBL_MAX)\<rparr>"

definition Rectangle3D_of :: "Vector3D \<Rightarrow> Vector3D \<Rightarrow> Rectangle3D" where
  \<comment> \<open>Modelled from the spec: \<^verbatim>\<open>cb::Rectangle3D(p1, p2)\<close>.  The constructor stores \<open>p1\<close>
      as minimum and \<open>p2\<close> as maximum and swaps the two in every axis where the maximum
      is below the minimum.\<close>
  "Rectangle3D_of p1 p2 =
     \<lparr>rmin = Vector3D (if vec_x p2 < vec_x p1 then vec_x p2 else vec_x p1)
                       (if vec_y p2 < vec_y p1 then vec_y p2 else vec_y p1)
                       (if vec_z p2 < vec_z p1 then vec_z p2 else vec_z p1),
      rmax = Vector3D (if vec_x p2 < vec_x p1 then vec_x p1 else vec_x p2)
                       (if vec_y p2 < vec_y p1 then vec_y p1 else vec_y p2)
                       (if vec_z p2 < vec_z p1 then vec_z p1 else vec_z p2)\<rparr>"

definition getMin :: "Rectangle3D \<Rightarrow> Vector3D" where
  "getMin r = rmin r"

definition getMax :: "Rectangle3D \<Rightarrow> Vector3D" where
  "getMax r = rmax r"

definition getDimensions :: "Rectangle3D \<Rightarrow> Vector3D" where
  \<comment> \<open>Modelled from the spec: the extents (width, depth, height) of the rectangle.\<close>
  "getDimensions r = vec_sub (rmax r) (rmin r)"

definition getWidth :: "Rectangle3D \<Rightarrow> real" where
  "getWidth r = vec_x (getDimensions r)"

definition getDepth :: "Rectangle3D \<Rightarrow> real" where
  "getDepth r = vec_y (getDimensions r)"

definition getHeight :: "Rectangle3D \<Rightarrow> real" where
  "getHeight r = vec_z (getDimensions r)"

definition getVolume :: "Rectangle3D \<Rightarrow> real" where
  \<comment> \<open>Modelled from the spec: the product of the three extents.\<close>
  "getVolume r = getWidth r * getDepth r * getHeight r"

definition add_point :: "Rectangle3D \<Rightarrow> Vector3D \<Rightarrow> Rectangle3D" where
  \<comment> \<open>Modelled from the spec: \<^verbatim>\<open>Rectangle3D::add(const Vector3D &)\<close>, which grows the
      rectangle to contain the point (a running union).\<close>
  "add_point r p =
     \<lparr>rmin = Vector3D (if vec_x p < vec_x (rmin r) then vec_x p else vec_x (rmin r))
                       (if vec_y p < vec_y (rmin r) then vec_y p else vec_y (rmin r))
                       (if vec_z p < vec_z (rmin r) then vec_z p else vec_z (rmin r)),
      rmax = Vector3D (if vec_x (rmax r) < vec_x p then vec_x p else vec_x (rmax r))
                       (if vec_y (rmax r) < vec_y p then vec_y p else vec_y (rmax r))
                       (if vec_z (rmax r) < vec_z p then vec_z p else vec_z (rmax r))\<rparr>"

definition add_rect :: "Rectangle3D \<Rightarrow> Rectangle3D \<Rightarrow> Rectangle3D" where
  \<comment> \<open>Modelled from the spec: \<^verbatim>\<open>Rectangle3D::add(const Rectangle3D &)\<close>, the union with
      another rectangle: both of its corners are added.\<close>
  "add_rect r b = add_point (add_point r (rmin b)) (rmax b)"

section \<open>Enumerations\<close>

text \<open>
  A C++ enumeration object can hold any integer, and \<^verbatim>\<open>SettingsDialog.cpp\<close> casts a
  combo-box index to \<^verbatim>\<open>ResolutionMode::enum_t\<close>.  Each enumeration therefore has one
  more constructor for a value that is none of the enumerators.
\<close>

datatype ToolUnits = UNITS_MM | UNITS_INCH

datatype ResolutionMode =
    RESOLUTION_LOW
  | RESOLUTION_MEDIUM
  | RESOLUTION_HIGH
  | RESOLUTION_VERY_HIGH
  | RESOLUTION_MANUAL
  | RESOLUTION_OTHER int

section \<open>Project state and its mutators\<close>

text \<open>
  The fields of \<^verbatim>\<open>Project\<close> that the operations below read or write.  The entries of the
  option store are kept in parsed form: \<open>opt_units\<close> and \<open>opt_resolution_mode\<close> hold the
  enumerator whose name the store holds, \<open>opt_automatic_workpiece\<close> is \<open>None\<close> while
  the option has no value, and \<open>workpieceMin\<close>/\<open>workpieceMax\<close> are \<open>None\<close> for the
  empty string and \<open>Some v\<close> for the printed form of the vector \<open>v\<close>.
\<close>

record Project =
  filename :: string
  opt_units :: ToolUnits
  opt_resolution_mode :: ResolutionMode
  resolution :: real
  opt_automatic_workpiece :: "bool option"
  workpieceMargin :: real
  workpieceMin :: "Vector3D option"
  workpieceMax :: "Vector3D option"
  workpiece :: Rectangle3D
  dirty :: bool

definition markDirty :: "Project \<Rightarrow> Project" where
  "markDirty p = p\<lparr>dirty := True\<rparr>"

definition setFilename :: "string \<Rightarrow> Project \<Rightarrow> Project" where
  "setFilename f p =
     (if f = [] \<or> filename p = f then p
      else markDirty (p\<lparr>filename := f\<rparr>))"

definition getUnits :: "Project \<Rightarrow> ToolUnits" where
  "getUnits p = opt_units p"

definition setUnits :: "ToolUnits \<Rightarrow> Project \<Rightarrow> Project" where
  "setUnits u p =
     (if u = getUnits p then p
      else markDirty (p\<lparr>opt_units := u\<rparr>))"

definition getResolutionMode :: "Project \<Rightarrow> ResolutionMode" where
  "getResolutionMode p = opt_resolution_mode p"

definition getResolution :: "Project \<Rightarrow> real" where
  "getResolution p = resolution p"

definition setResolution :: "real \<Rightarrow> Project \<Rightarrow> Project" where
  "setResolution x p =
     (if x = getResolution p then p
      else (let p1 = p\<lparr>resolution := x\<rparr>
            in if getResolutionMode p1 = RESOLUTION_MANUAL then markDirty p1 else p1))"

definition computeResolution :: "ResolutionMode \<Rightarrow> Rectangle3D \<Rightarrow> real" where
  "computeResolution m bounds =
     (if m = RESOLUTION_MANUAL \<or> bounds = Rectangle3D_default then 1
      else (let divisor = (case m of
                             RESOLUTION_LOW \<Rightarrow> 100000
                           | RESOLUTION_HIGH \<Rightarrow> 5000000
                           | RESOLUTION_VERY_HIGH \<Rightarrow> 10000000
                           | _ \<Rightarrow> 250000)
            in (getVolume bounds / divisor) powr (1 / 3)))"

definition getWorkpieceBounds :: "Project \<Rightarrow> Rectangle3D" where
  "getWorkpieceBounds p =
     (let wpMin = (case workpieceMin p of None \<Rightarrow> Vector3D_zero | Some v \<Rightarrow> v);
          wpMax = (case workpieceMax p of None \<Rightarrow> Vector3D_zero | Some v \<Rightarrow> v)
      in Rectangle3D_of wpMin wpMax)"

definition updateResolution :: "Project \<Rightarrow> Project" where
  "updateResolution p =
     (let m = getResolutionMode p
      in if m \<noteq> RESOLUTION_MANUAL
         then setResolution (computeResolution m (getWorkpieceBounds p)) p
         else p)"

definition setResolutionMode :: "ResolutionMode \<Rightarrow> Project \<Rightarrow> Project" where
  "setResolutionMode x p =
     (if x = getResolutionMode p then p
      else updateResolution (markDirty (p\<lparr>opt_resolution_mode := x\<rparr>)))"

definition getAutomaticWorkpiece :: "Project \<Rightarrow> bool" where
  "getAutomaticWorkpiece p =
     ((opt_automatic_workpiece p \<noteq> None \<and> the (opt_automatic_workpiece p))
      \<or> (workpieceMin p = None \<and> workpieceMax p = None))"

definition setAutomaticWorkpiece :: "bool \<Rightarrow> Project \<Rightarrow> Project" where
  "setAutomaticWorkpiece x p =
     (let p1 = (if getAutomaticWorkpiece p \<noteq> x then markDirty p else p)
      in p1\<lparr>opt_automatic_workpiece := Some x\<rparr>)"

definition getWorkpieceMargin :: "Project \<Rightarrow> real" where
  "getWorkpieceMargin p = workpieceMargin p"

definition setWorkpieceMargin :: "real \<Rightarrow> Project \<Rightarrow> Project" where
  "setWorkpieceMargin x p =
     (if getWorkpieceMargin p = x then p
      else markDirty (p\<lparr>workpieceMargin := x\<rparr>))"

definition setWorkpieceBounds :: "Rectangle3D \<Rightarrow> Project \<Rightarrow> Project" where
  "setWorkpieceBounds bounds p =
     (let p1 = p\<lparr>workpieceMin := Some (getMin bounds), workpieceMax := Some (getMax bounds)\<rparr>;
          p2 = updateResolution p1;
          p3 = (if \<not> getAutomaticWorkpiece p2 then markDirty p2 else p2)
      in p3\<lparr>workpiece := bounds\<rparr>)"

definition Project_new :: Project where
  \<comment> \<open>The project as \<^verbatim>\<open>Project::Project\<close> leaves it for an empty file name: units mm,
      resolution mode medium, margin 5, no workpiece bounds, the \<open>workpiece\<close> member
      default-constructed, clean.  The resolution member has no initialiser in the
      constructor; it is taken as 1 here.\<close>
  "Project_new =
     \<lparr>filename = [], opt_units = UNITS_MM, opt_resolution_mode = RESOLUTION_MEDIUM,
      resolution = 1, opt_automatic_workpiece = None, workpieceMargin = 5,
      workpieceMin = None, workpieceMax = None,
      workpiece = Rectangle3D_default, dirty = False\<rparr>"

section \<open>Double-precision arithmetic\<close>

text \<open>
  \<open>fl x\<close> is the double nearest to \<open>x\<close>: a multiple of \<open>2 ^ (e - 52)\<close>, where
  \<open>2 ^ e \<le> \<bar>x\<bar> < 2 ^ (e + 1)\<close>, halfway cases going to the even multiple.  This is the
  rounding of an IEEE 754 binary64 operation in the default rounding mode, as long as the
  result is neither beyond the largest double nor below the smallest normal one: the model
  has no overflow, no gradual underflow, no infinity and no NaN.  \<open>in_double_range\<close> keeps
  the operands of the statements below well inside the magnitudes for which that holds.
\<close>

definition round_even :: "real \<Rightarrow> int" where
  "round_even x =
     (let f = \<lfloor>x\<rfloor>; d = x - of_int f
      in if d < 1 / 2 then f
         else if 1 / 2 < d then f + 1
         else if even f then f else f + 1)"

definition fl :: "real \<Rightarrow> real" where
  "fl x =
     (if x = 0 then 0
      else (let e = \<lfloor>log 2 \<bar>x\<bar>\<rfloor>
            in of_int (round_even (x / 2 powr of_int (e - 52))) * 2 powr of_int (e - 52)))"

definition in_double_range :: "real \<Rightarrow> bool" where
  "in_double_range x \<longleftrightarrow> x = 0 \<or> (1 / 2 ^ 100 \<le> \<bar>x\<bar> \<and> \<bar>x\<bar> \<le> 2 ^ 100)"

definition M_PI :: real where
  \<comment> \<open>The macro of \<^verbatim>\<open>math.h\<close>, a decimal literal that the compiler rounds to a double.\<close>
  "M_PI = fl 3.14159265358979323846"

section \<open>Tools and swept solids\<close>

datatype ToolShape =
    TS_CYLINDRICAL
  | TS_CONICAL
  | TS_BALLNOSE
  | TS_SPHEROID
  | TS_SNUBNOSE
  | TS_OTHER int

text \<open>
  The members of \<^verbatim>\<open>Tool\<close> read and written by \<^verbatim>\<open>Tool.cpp\<close>.  The class declaration
  (\<^verbatim>\<open>Tool.h\<close>) is not under \<^verbatim>\<open>src/\<close>; \<open>tlength\<close>, \<open>radius\<close> and \<open>snubDiameter\<close>
  are what \<^verbatim>\<open>getLength\<close>, \<^verbatim>\<open>getRadius\<close> and \<^verbatim>\<open>getSnubDiameter\<close> return and what the
  matching setters store, in millimetres.  Doubling and halving a double are exact, so
  \<open>getDiameter\<close>, \<open>setDiameter\<close> and \<open>getSweep\<close> carry no rounding.
\<close>

record Tool =
  number :: nat
  pocket :: nat
  units :: ToolUnits
  shape :: ToolShape
  tlength :: real
  radius :: real
  snubDiameter :: real
  description :: string



definition Tool_new :: "nat \<Rightarrow> nat \<Rightarrow> ToolUnits \<Rightarrow> Tool" where
  "Tool_new n pk u =
     \<lparr>number = n, pocket = pk, units = u, shape = TS_CYLINDRICAL,
      tlength = (if u = UNITS_MM then 10 else fl 25.4),
      radius = (if u = UNITS_MM then 1 else fl (fl 25.4 / 16)),
      snubDiameter = 0, description = []\<rparr>"

datatype Sweep =
    ConicSweep real real real
  | SpheroidSweep real real
  | CompositeSweep "(Sweep \<times> real) list"

datatype error =
    InvalidToolShape ToolShape
  | ToolMissingLength nat
  | ToolMissingRadius nat
  | InvalidValue string

definition getSweep :: "Tool \<Rightarrow> error + Sweep" where
  "getSweep t =
     (case shape t of
        TS_CYLINDRICAL \<Rightarrow> Inr (ConicSweep (tlength t) (radius t) (radius t))
      | TS_CONICAL \<Rightarrow> Inr (ConicSweep (tlength t) (radius t) 0)
      | TS_BALLNOSE \<Rightarrow>
          Inr (CompositeSweep
                 [(SpheroidSweep (radius t) (2 * radius t), 0),
                  (ConicSweep (tlength t) (radius t) (radius t), radius t)])
      | TS_SPHEROID \<Rightarrow> Inr (SpheroidSweep (radius t) (tlength t))
      | TS_SNUBNOSE \<Rightarrow> Inr (ConicSweep (tlength t) (radius t) (snubDiameter t / 2))
      | TS_OTHER n \<Rightarrow> Inl (InvalidToolShape (TS_OTHER n)))"

definition c_round :: "real \<Rightarrow> real" where
  \<comment> \<open>The C library's \<^verbatim>\<open>round\<close>: to the nearest integer, halfway cases away from zero.\<close>
  "c_round v = (if 0 \<le> v then of_int \<lfloor>v + 1 / 2\<rfloor> else of_int \<lceil>v - 1 / 2\<rceil>)"

text \<open>
  \<open>atan_d\<close> and \<open>tan_d\<close> stand for the C library's \<^verbatim>\<open>atan\<close> and \<^verbatim>\<open>tan\<close> on doubles.  The
  other operations are rounded one by one, in the order in which C++ evaluates them:
  \<^verbatim>\<open>180.0 - 360.0 * atan(l / r) / M_PI\<close> is \<^verbatim>\<open>180.0 - ((360.0 * atan(l / r)) / M_PI)\<close> and
  \<^verbatim>\<open>(1 - angle / 180.0) * M_PI / 2.0\<close> is \<^verbatim>\<open>((1 - angle / 180.0) * M_PI) / 2.0\<close>.  The result
  of \<^verbatim>\<open>round\<close> is an integer and needs no rounding.
\<close>

definition getAngle :: "(real \<Rightarrow> real) \<Rightarrow> Tool \<Rightarrow> real" where
  "getAngle atan_d t =
     (let angle = fl (180 - fl (fl (360 * atan_d (fl (tlength t / radius t))) / M_PI))
      in fl (c_round (fl (angle * 100)) / 100))"

definition setLengthFromAngle :: "(real \<Rightarrow> real) \<Rightarrow> real \<Rightarrow> Tool \<Rightarrow> Tool" where
  "setLengthFromAngle tan_d angle t =
     t\<lparr>tlength :=
         fl (radius t * tan_d (fl (fl (fl (1 - fl (angle / 180)) * M_PI) / 2)))\<rparr>"

section \<open>Automatic workpiece\<close>

text \<open>
  A motion segment as \<open>updateAutomaticWorkpiece\<close> reads it.  \<^verbatim>\<open>GCode::Move\<close> and
  \<^verbatim>\<open>GCode::MoveType\<close> are declared outside \<^verbatim>\<open>src/\<close>; the spec gives a segment a type
  (rapid or cutting), a start point, an end point and a tool id.
\<close>

datatype MoveType = MOVE_RAPID | MOVE_CUTTING

record Move =
  getType :: MoveType
  getTool :: int
  getStartPt :: Vector3D
  getEndPt :: Vector3D

text \<open>
  The loop of \<open>updateAutomaticWorkpiece\<close> over the path.  Two collaborators are not
  under \<^verbatim>\<open>src/\<close> and are parameters: \<open>toolSweep n\<close> stands for
  \<^verbatim>\<open>ToolSweep::getSweep(tools.get(n))\<close>, which may throw, and \<open>getBBoxes s a b\<close> is the list
  of boxes that \<^verbatim>\<open>s->getBBoxes(a, b, bboxes, 0)\<close> appends.  \<open>sweeps\<close> is the per-tool cache.
\<close>

fun collectBBoxes ::
  "(nat \<Rightarrow> error + Sweep) \<Rightarrow> (Sweep \<Rightarrow> Vector3D \<Rightarrow> Vector3D \<Rightarrow> Rectangle3D list) \<Rightarrow>
   Move list \<Rightarrow> (nat \<rightharpoonup> Sweep) \<Rightarrow> Rectangle3D list \<Rightarrow> error + Rectangle3D list" where
  "collectBBoxes toolSweep getBBoxes [] sweeps bboxes = Inr bboxes"
| "collectBBoxes toolSweep getBBoxes (move # rest) sweeps bboxes =
     (if getType move = MOVE_RAPID then collectBBoxes toolSweep getBBoxes rest sweeps bboxes
      else if getTool move < 0 then collectBBoxes toolSweep getBBoxes rest sweeps bboxes
      else (case (case sweeps (nat (getTool move)) of
                    Some s \<Rightarrow> Inr s
                  | None \<Rightarrow> toolSweep (nat (getTool move))) of
              Inl e \<Rightarrow> Inl e
            | Inr s \<Rightarrow>
                collectBBoxes toolSweep getBBoxes rest
                  (sweeps(nat (getTool move) \<mapsto> s))
                  (bboxes @ getBBoxes s (getStartPt move) (getEndPt move))))"

definition slabFromBounds :: "Rectangle3D \<Rightarrow> Rectangle3D" where
  \<comment> \<open>Lines 297 to 304: start from z = 0, then at least 2mm thick.\<close>
  "slabFromBounds wpBounds =
     (let bMin = getMin wpBounds;
          bMax = getMax wpBounds;
          wp = Rectangle3D_of bMin (Vector3D (vec_x bMax) (vec_y bMax) 0)
      in if getHeight wp < 2
         then add_point wp (Vector3D (vec_x bMin) (vec_y bMin) (vec_z bMin - 2))
         else wp)"

definition withMargin :: "real \<Rightarrow> Rectangle3D \<Rightarrow> Rectangle3D" where
  \<comment> \<open>Lines 307 to 311: the margin step, for the margin percentage \<open>m\<close>.\<close>
  "withMargin m wp =
     (let margin = vec_div (vec_mul (getDimensions wp) m) 100;
          wp1 = add_point wp (vec_sub (getMin wp) margin)
      in add_point wp1 (vec_add (getMax wp1) (Vector3D (vec_x margin) (vec_y margin) 0)))"

definition updateAutomaticWorkpiece ::
  "(nat \<Rightarrow> error + Sweep) \<Rightarrow> (Sweep \<Rightarrow> Vector3D \<Rightarrow> Vector3D \<Rightarrow> Rectangle3D list) \<Rightarrow>
   (Rectangle3D \<Rightarrow> bool) \<Rightarrow> Move list \<Rightarrow> Project \<Rightarrow> error + Project" where
  \<comment> \<open>\<open>isReal\<close> stands for \<^verbatim>\<open>Rectangle3D::isReal\<close> (no NaN and no infinite corner), which
      has no counterpart on real numbers and is a parameter.  An exception of
      \<open>toolSweep\<close> leaves the function; the state it leaves behind is not modelled.\<close>
  "updateAutomaticWorkpiece toolSweep getBBoxes isReal path p =
     (if \<not> getAutomaticWorkpiece p then Inr p
      else (let p1 = setAutomaticWorkpiece True p
            in case collectBBoxes toolSweep getBBoxes path Map.empty [] of
                 Inl e \<Rightarrow> Inl e
               | Inr bboxes \<Rightarrow>
                   (let wpBounds = foldl add_rect Rectangle3D_default bboxes
                    in if wpBounds = Rectangle3D_default then Inr p1
                       else (let wp = slabFromBounds wpBounds
                             in if isReal wp
                                then Inr (setWorkpieceBounds
                                            (withMargin (getWorkpieceMargin p1) wp) p1)
                                else Inr p1))))"

section \<open>File names in the project file\<close>

fun encodeFilename :: "string \<Rightarrow> string" where
  "encodeFilename [] = []"
| "encodeFilename (c # cs) =
     (if c = CHR 0x09 then ''%07''
      else if c = CHR 0x0A then ''%0A''
      else if c = CHR 0x0B then ''%0B''
      else if c = CHR 0x0D then ''%0D''
      else if c = CHR ''%'' then ''%25''
      else if c = CHR '' '' then ''%20''
      else [c]) @ encodeFilename cs"

definition hexDigit :: "char \<Rightarrow> nat option" where
  "hexDigit c =
     (let n = (of_char c :: nat)
      in if 48 \<le> n \<and> n \<le> 57 then Some (n - 48)
         else if 65 \<le> n \<and> n \<le> 70 then Some (n - 55)
         else if 97 \<le> n \<and> n \<le> 102 then Some (n - 87)
         else None)"

definition parseU8_hex :: "string \<Rightarrow> error + nat" where
  \<comment> \<open>Modelled from the spec: \<^verbatim>\<open>String::parseU8("0x" + ds)\<close> (cbang, not under
      \<^verbatim>\<open>src/\<close>) for the at most two characters \<open>ds\<close> that follow a percent sign, as
      percent-decoding needs it: the value of the hexadecimal digits, and an exception
      when there is no digit or a character is not a hexadecimal digit.  The C string
      ends at the first NUL character.\<close>
  "parseU8_hex ds =
     (case takeWhile (\<lambda>c. c \<noteq> CHR 0x00) ds of
        [a] \<Rightarrow> (case hexDigit a of
                  Some x \<Rightarrow> Inr x
                | None \<Rightarrow> Inl (InvalidValue (''0x'' @ ds)))
      | [a, b] \<Rightarrow> (case (hexDigit a, hexDigit b) of
                     (Some x, Some y) \<Rightarrow> Inr (16 * x + y)
                   | _ \<Rightarrow> Inl (InvalidValue (''0x'' @ ds)))
      | _ \<Rightarrow> Inl (InvalidValue (''0x'' @ ds)))"

definition size_minus_2 :: "nat \<Rightarrow> nat" where
  \<comment> \<open>\<^verbatim>\<open>filename.size() - 2\<close> in the unsigned 64-bit \<^verbatim>\<open>size_t\<close>: it wraps around for a
      size below 2.\<close>
  "size_minus_2 n = (if 2 \<le> n then n - 2 else 2 ^ 64 + n - 2)"

function decodeLoop :: "string \<Rightarrow> nat \<Rightarrow> string \<Rightarrow> error + string" where
  "decodeLoop fname i result =
     (if i < length fname then
        (if fname ! i = CHR ''%'' \<and> i < size_minus_2 (length fname) then
           (case parseU8_hex (take 2 (drop (i + 1) fname)) of
              Inl e \<Rightarrow> Inl e
            | Inr v \<Rightarrow> decodeLoop fname (i + 2 + 1) (result @ [char_of v]))
         else decodeLoop fname (i + 1) (result @ [fname ! i]))
      else Inr result)"
  by pat_completeness auto
termination
  by (relation "measure (\<lambda>(fname, i, result). length fname - i)") auto

declare decodeLoop.simps [simp del]

definition decodeFilename :: "string \<Rightarrow> error + string" where
  \<comment> \<open>The loop of \<^verbatim>\<open>Project::decodeFilename\<close>, for a name shorter than \<open>2 ^ 32\<close>
      characters (the index is a 32-bit \<^verbatim>\<open>unsigned\<close>).\<close>
  "decodeFilename fname = decodeLoop fname 0 []"

section \<open>Tool serialisation: text of enumerators and numbers\<close>

definition toUpperChar :: "char \<Rightarrow> char" where
  "toUpperChar c =
     (let n = (of_char c :: nat) in if 97 \<le> n \<and> n \<le> 122 then char_of (n - 32) else c)"


definition ToolUnits_parse :: "string \<Rightarrow> error + ToolUnits" where
  \<comment> \<open>Modelled from the spec: \<^verbatim>\<open>ToolUnits::parse\<close>.  A name of the table is accepted in
      any letter case (\<^verbatim>\<open>Project.cpp\<close> sets the default \<^verbatim>\<open>"mm"\<close>); an unknown token
      is a parse error.\<close>
  "ToolUnits_parse s =
     (if map toUpperChar s = ''MM'' then Inr UNITS_MM
      else if map toUpperChar s = ''INCH'' then Inr UNITS_INCH
      else Inl (InvalidValue s))"


definition ToolShape_parse :: "string \<Rightarrow> error + ToolShape" where
  \<comment> \<open>Modelled from the spec: \<^verbatim>\<open>ToolShape::parse\<close>; an unknown shape token is a parse
      error.\<close>
  "ToolShape_parse s =
     (let n = map toUpperChar s
      in if n = ''CYLINDRICAL'' then Inr TS_CYLINDRICAL
         else if n = ''CONICAL'' then Inr TS_CONICAL
         else if n = ''BALLNOSE'' then Inr TS_BALLNOSE
         else if n = ''SPHEROID'' then Inr TS_SPHEROID
         else if n = ''SNUBNOSE'' then Inr TS_SNUBNOSE
         else Inl (InvalidValue s))"



text \<open>
  \<^verbatim>\<open>String(double)\<close> and \<^verbatim>\<open>String::parseDouble\<close> are cbang functions outside \<^verbatim>\<open>src/\<close>.
  The XML functions below take them as parameters \<open>fmt\<close> and \<open>parseDouble\<close>.  The
  concrete runs use \<open>parseDecimal\<close>, a reader of decimal numerals built on the C
  library's \<^verbatim>\<open>strtod\<close> as \<^verbatim>\<open>parseDouble\<close> is: sign, digits, fraction and decimal
  exponent; the value is rounded to the nearest double; text that is no such numeral is
  refused, and so is a numeral beyond the largest double, for which \<^verbatim>\<open>strtod\<close> reports a
  range error.
\<close>

definition isDigit :: "char \<Rightarrow> bool" where
  "isDigit c = (48 \<le> (of_char c :: nat) \<and> (of_char c :: nat) \<le> 57)"

definition natOfDigits :: "string \<Rightarrow> nat" where
  "natOfDigits ds = foldl (\<lambda>a c. 10 * a + (of_char c - 48)) 0 ds"

definition splitSign :: "string \<Rightarrow> bool \<times> string" where
  "splitSign s =
     (case s of
        [] \<Rightarrow> (False, [])
      | c # r \<Rightarrow> if c = CHR ''-'' then (True, r)
                 else if c = CHR ''+'' then (False, r)
                 else (False, s))"

definition parseDecimal :: "string \<Rightarrow> error + real" where
  \<comment> \<open>Modelled from the spec: \<^verbatim>\<open>String::parseDouble\<close> on decimal numerals; an unparsable
      numeric field is fatal.\<close>
  "parseDecimal s =
     (let (neg, body) = splitSign s;
          ip = takeWhile isDigit body;
          r1 = dropWhile isDigit body;
          fp = (case r1 of c # r \<Rightarrow> if c = CHR ''.'' then takeWhile isDigit r else [] | [] \<Rightarrow> []);
          r2 = (case r1 of c # r \<Rightarrow> if c = CHR ''.'' then dropWhile isDigit r else r1 | [] \<Rightarrow> []);
          mant = real (natOfDigits ip) + real (natOfDigits fp) / 10 ^ length fp;
          ex = (case r2 of
                  [] \<Rightarrow> Some 0
                | c # r \<Rightarrow>
                    if c = CHR ''e'' \<or> c = CHR ''E'' then
                      (let (eneg, eb) = splitSign r
                       in if eb \<noteq> [] \<and> list_all isDigit eb
                          then Some (if eneg then - int (natOfDigits eb)
                                     else int (natOfDigits eb))
                          else None)
                    else None)
      in case ex of
           None \<Rightarrow> Inl (InvalidValue s)
         | Some e \<Rightarrow>
             if ip = [] \<and> fp = [] then Inl (InvalidValue s)
             else (let v = (if 0 \<le> e then mant * 10 ^ nat e else mant / 10 ^ nat (- e))
                   in if DBL_MAX < v then Inl (InvalidValue s)
                      else Inr (fl (if neg then - v else v))))"

section \<open>Tool serialisation: XML attributes\<close>

definition Tool_read_xml ::
  "(string \<Rightarrow> error + real) \<Rightarrow> (string \<rightharpoonup> string) \<Rightarrow> Tool \<Rightarrow> error + Tool" where
  "Tool_read_xml parseDouble attrs t =
     (let t1 = (case attrs ''units'' of
                  None \<Rightarrow> t
                | Some s \<Rightarrow> (case ToolUnits_parse s of
                               Inr u \<Rightarrow> t\<lparr>units := u\<rparr>
                             | Inl e \<Rightarrow> t));
          t2 = (case attrs ''shape'' of
                  None \<Rightarrow> t1
                | Some s \<Rightarrow> (case ToolShape_parse s of
                               Inr sh \<Rightarrow> t1\<lparr>shape := sh\<rparr>
                             | Inl e \<Rightarrow> t1));
          scale = (if units t2 = UNITS_INCH then fl 25.4 else 1)
      in case attrs ''length'' of
           None \<Rightarrow> Inl (ToolMissingLength (number t2))
         | Some ls \<Rightarrow>
            (case parseDouble ls of
               Inl e \<Rightarrow> Inl e
             | Inr l \<Rightarrow>
                (let t3 = t2\<lparr>tlength := fl (l * scale)\<rparr>
                 in case (case attrs ''radius'' of
                            Some rs \<Rightarrow>
                              (case parseDouble rs of
                                 Inl e \<Rightarrow> Inl e
                               | Inr r \<Rightarrow> Inr (t3\<lparr>radius := fl (r * scale)\<rparr>))
                          | None \<Rightarrow>
                              (case attrs ''diameter'' of
                                 Some ds \<Rightarrow>
                                   (case parseDouble ds of
                                      Inl e \<Rightarrow> Inl e
                                    | Inr d \<Rightarrow> Inr (t3\<lparr>radius := fl (fl (d / 2) * scale)\<rparr>))
                               | None \<Rightarrow> Inl (ToolMissingRadius (number t3)))) of
                      Inl e \<Rightarrow> Inl e
                    | Inr t4 \<Rightarrow>
                       (case attrs ''snub_diameter'' of
                          None \<Rightarrow> Inr t4
                        | Some ss \<Rightarrow>
                           (case parseDouble ss of
                              Inl e \<Rightarrow> Inl e
                            | Inr sd \<Rightarrow> Inr (t4\<lparr>snubDiameter := fl (sd * scale)\<rparr>))))))"


section \<open>Tool serialisation: JSON\<close>






section \<open>Resolution policy\<close>

lemma DBL_MAX_pos: "0 < DBL_MAX"
  by (simp add: DBL_MAX_def)





section \<open>The automatic-workpiece flag\<close>

text \<open>
  Claim C10.  While neither workpiece corner is set, \<open>getAutomaticWorkpiece\<close> is true
  whatever the stored option is; \<open>setAutomaticWorkpiece False\<close> stores the value
  false and \<open>getAutomaticWorkpiece\<close> still answers true.
\<close>

theorem getAutomaticWorkpiece_without_bounds:
  assumes "workpieceMin p = None" and "workpieceMax p = None"
  shows "getAutomaticWorkpiece p
         \<and> opt_automatic_workpiece (setAutomaticWorkpiece False p) = Some False
         \<and> getAutomaticWorkpiece (setAutomaticWorkpiece False p)"
  using assms
  by (simp add: getAutomaticWorkpiece_def setAutomaticWorkpiece_def markDirty_def Let_def)

theorem getAutomaticWorkpiece_without_bounds_witness:
  "workpieceMin Project_new = None \<and> workpieceMax Project_new = None
   \<and> getAutomaticWorkpiece Project_new
   \<and> opt_automatic_workpiece (setAutomaticWorkpiece False Project_new) = Some False
   \<and> getAutomaticWorkpiece (setAutomaticWorkpiece False Project_new)"
proof -
  have a: "workpieceMin Project_new = None" by (simp add: Project_new_def)
  have b: "workpieceMax Project_new = None" by (simp add: Project_new_def)
  show ?thesis
    using getAutomaticWorkpiece_without_bounds [OF a b] a b by simp
qed

section \<open>Dirty tracking of the mutators\<close>

text \<open>
  Claim C7, as the code has it.  \<open>setUnits\<close>, \<open>setResolutionMode\<close> and
  \<open>setWorkpieceMargin\<close> leave the project as it is when the new value equals the
  current one, and otherwise store the value and mark the project dirty.  \<open>setFilename\<close>
  does the same and also ignores the empty name.  \<open>setResolution\<close> leaves the project
  as it is for an equal value and otherwise stores the value; it marks the project dirty
  only in manual resolution mode.
\<close>

theorem mutators_dirty_tracking:
  "setUnits (getUnits p) p = p
   \<and> (u \<noteq> getUnits p \<longrightarrow>
        getUnits (setUnits u p) = u \<and> dirty (setUnits u p))
   \<and> setResolutionMode (getResolutionMode p) p = p
   \<and> (x \<noteq> getResolutionMode p \<longrightarrow>
        getResolutionMode (setResolutionMode x p) = x \<and> dirty (setResolutionMode x p))
   \<and> setWorkpieceMargin (getWorkpieceMargin p) p = p
   \<and> (mg \<noteq> getWorkpieceMargin p \<longrightarrow>
        getWorkpieceMargin (setWorkpieceMargin mg p) = mg \<and> dirty (setWorkpieceMargin mg p))
   \<and> setFilename (filename p) p = p
   \<and> setFilename [] p = p
   \<and> (f \<noteq> filename p \<and> f \<noteq> [] \<longrightarrow>
        filename (setFilename f p) = f \<and> dirty (setFilename f p))
   \<and> setResolution (getResolution p) p = p
   \<and> (r \<noteq> getResolution p \<longrightarrow>
        getResolution (setResolution r p) = r
        \<and> (dirty (setResolution r p) \<longleftrightarrow>
             dirty p \<or> getResolutionMode p = RESOLUTION_MANUAL))"
proof -
  have units: "setUnits (getUnits p) p = p
     \<and> (u \<noteq> getUnits p \<longrightarrow> getUnits (setUnits u p) = u \<and> dirty (setUnits u p))"
    by (simp add: setUnits_def getUnits_def markDirty_def)
  have mode_same: "setResolutionMode (getResolutionMode p) p = p"
    by (simp add: setResolutionMode_def)
  have mode_diff: "x \<noteq> getResolutionMode p \<longrightarrow>
        getResolutionMode (setResolutionMode x p) = x \<and> dirty (setResolutionMode x p)"
    by (simp add: setResolutionMode_def updateResolution_def setResolution_def
        getResolutionMode_def getResolution_def markDirty_def Let_def)
  have margin: "setWorkpieceMargin (getWorkpieceMargin p) p = p
     \<and> (mg \<noteq> getWorkpieceMargin p \<longrightarrow>
        getWorkpieceMargin (setWorkpieceMargin mg p) = mg \<and> dirty (setWorkpieceMargin mg p))"
    by (auto simp add: setWorkpieceMargin_def getWorkpieceMargin_def markDirty_def)
  have name: "setFilename (filename p) p = p \<and> setFilename [] p = p
     \<and> (f \<noteq> filename p \<and> f \<noteq> [] \<longrightarrow>
        filename (setFilename f p) = f \<and> dirty (setFilename f p))"
    by (auto simp add: setFilename_def markDirty_def)
  have res: "setResolution (getResolution p) p = p
     \<and> (r \<noteq> getResolution p \<longrightarrow>
        getResolution (setResolution r p) = r
        \<and> (dirty (setResolution r p) \<longleftrightarrow>
             dirty p \<or> getResolutionMode p = RESOLUTION_MANUAL))"
    by (simp add: setResolution_def getResolution_def getResolutionMode_def markDirty_def
        Let_def)
  from units mode_same mode_diff margin name res show ?thesis by blast
qed

theorem mutators_dirty_tracking_witness:
  "UNITS_INCH \<noteq> getUnits Project_new
   \<and> getUnits (setUnits UNITS_INCH Project_new) = UNITS_INCH
   \<and> dirty (setUnits UNITS_INCH Project_new)
   \<and> RESOLUTION_HIGH \<noteq> getResolutionMode Project_new
   \<and> getResolutionMode (setResolutionMode RESOLUTION_HIGH Project_new) = RESOLUTION_HIGH
   \<and> dirty (setResolutionMode RESOLUTION_HIGH Project_new)
   \<and> 10 \<noteq> getWorkpieceMargin Project_new
   \<and> getWorkpieceMargin (setWorkpieceMargin 10 Project_new) = 10
   \<and> dirty (setWorkpieceMargin 10 Project_new)
   \<and> ''a.xml'' \<noteq> filename Project_new \<and> ''a.xml'' \<noteq> []
   \<and> filename (setFilename ''a.xml'' Project_new) = ''a.xml''
   \<and> dirty (setFilename ''a.xml'' Project_new)
   \<and> 2 \<noteq> getResolution (Project_new\<lparr>opt_resolution_mode := RESOLUTION_MANUAL\<rparr>)
   \<and> getResolution (setResolution 2 (Project_new\<lparr>opt_resolution_mode := RESOLUTION_MANUAL\<rparr>)) = 2
   \<and> dirty (setResolution 2 (Project_new\<lparr>opt_resolution_mode := RESOLUTION_MANUAL\<rparr>))"
proof -
  have h: "UNITS_INCH \<noteq> getUnits Project_new"
      "RESOLUTION_HIGH \<noteq> getResolutionMode Project_new"
      "10 \<noteq> getWorkpieceMargin Project_new"
      "''a.xml'' \<noteq> filename Project_new" "''a.xml'' \<noteq> []"
    by (simp_all add: Project_new_def getUnits_def getResolutionMode_def
        getWorkpieceMargin_def)
  have h2: "2 \<noteq> getResolution (Project_new\<lparr>opt_resolution_mode := RESOLUTION_MANUAL\<rparr>)"
      "getResolutionMode (Project_new\<lparr>opt_resolution_mode := RESOLUTION_MANUAL\<rparr>)
         = RESOLUTION_MANUAL"
    by (simp_all add: Project_new_def getResolution_def getResolutionMode_def)
  show ?thesis
    using mutators_dirty_tracking [where p = Project_new and u = UNITS_INCH
        and x = RESOLUTION_HIGH and mg = 10 and f = "''a.xml''" and r = 2]
      mutators_dirty_tracking [where p = "Project_new\<lparr>opt_resolution_mode := RESOLUTION_MANUAL\<rparr>"
        and r = 2]
      h h2
    by simp
qed

text \<open>
  Claim C7 as stated fails for \<open>setResolution\<close> outside manual mode, where a changed
  value is stored and the project stays clean, and for \<open>setFilename\<close> with the empty
  name, which differs from the current name and is not applied.
\<close>

theorem setResolution_not_dirty_counterexample:
  "2 \<noteq> getResolution Project_new
   \<and> getResolution (setResolution 2 Project_new) = 2
   \<and> \<not> dirty (setResolution 2 Project_new)
   \<and> [] \<noteq> filename (Project_new\<lparr>filename := ''a.xml''\<rparr>)
   \<and> setFilename [] (Project_new\<lparr>filename := ''a.xml''\<rparr>)
       = Project_new\<lparr>filename := ''a.xml''\<rparr>"
  by (simp add: setResolution_def getResolution_def getResolutionMode_def markDirty_def
      setFilename_def Project_new_def Let_def)

section \<open>Tool shape to swept solid\<close>

text \<open>
  Claim C4.  \<open>getSweep\<close> maps a cylindrical tool to \<open>ConicSweep length radius radius\<close>,
  a conical one to \<open>ConicSweep length radius 0\<close>, a ballnose one to the composite of
  \<open>SpheroidSweep radius (2 * radius)\<close> at offset 0 and \<open>ConicSweep length radius radius\<close>
  at offset \<open>radius\<close>, a spheroidal one to \<open>SpheroidSweep radius length\<close>, a snubnose one
  to \<open>ConicSweep length radius (snubDiameter / 2)\<close>, and raises the invalid-tool-shape
  error for every other shape value.
\<close>

theorem getSweep_by_shape:
  "getSweep (t\<lparr>shape := TS_CYLINDRICAL\<rparr>) = Inr (ConicSweep (tlength t) (radius t) (radius t))
   \<and> getSweep (t\<lparr>shape := TS_CONICAL\<rparr>) = Inr (ConicSweep (tlength t) (radius t) 0)
   \<and> getSweep (t\<lparr>shape := TS_BALLNOSE\<rparr>) =
       Inr (CompositeSweep [(SpheroidSweep (radius t) (2 * radius t), 0),
                            (ConicSweep (tlength t) (radius t) (radius t), radius t)])
   \<and> getSweep (t\<lparr>shape := TS_SPHEROID\<rparr>) = Inr (SpheroidSweep (radius t) (tlength t))
   \<and> getSweep (t\<lparr>shape := TS_SNUBNOSE\<rparr>) =
       Inr (ConicSweep (tlength t) (radius t) (snubDiameter t / 2))
   \<and> getSweep (t\<lparr>shape := TS_OTHER n\<rparr>) = Inl (InvalidToolShape (TS_OTHER n))"
  by (simp add: getSweep_def)

section \<open>Automatic workpiece: when nothing is committed\<close>

lemma collectBBoxes_skip:
  "\<forall>m \<in> set path. getType m = MOVE_RAPID \<or> getTool m < 0 \<Longrightarrow>
   collectBBoxes ts gb path sweeps bboxes = Inr bboxes"
  by (induction path arbitrary: sweeps bboxes) auto

lemma setAutomaticWorkpiece_frame:
  "workpiece (setAutomaticWorkpiece x p) = workpiece p
   \<and> workpieceMin (setAutomaticWorkpiece x p) = workpieceMin p
   \<and> workpieceMax (setAutomaticWorkpiece x p) = workpieceMax p"
  by (simp add: setAutomaticWorkpiece_def markDirty_def Let_def)

text \<open>
  Claim C8.  \<open>updateAutomaticWorkpiece\<close> returns the project unchanged when the automatic
  workpiece is disabled.  When every motion segment is rapid or has a negative tool id,
  and more generally when the loop collects no bounding box, it returns normally and the
  workpiece bounds (the two option strings and the \<open>workpiece\<close> member) are unchanged.
\<close>

theorem updateAutomaticWorkpiece_frame:
  "(\<not> getAutomaticWorkpiece p \<longrightarrow> updateAutomaticWorkpiece ts gb ir path p = Inr p)
   \<and> ((\<forall>m \<in> set path. getType m = MOVE_RAPID \<or> getTool m < 0) \<longrightarrow>
        (\<exists>q. updateAutomaticWorkpiece ts gb ir path p = Inr q
           \<and> workpiece q = workpiece p
           \<and> workpieceMin q = workpieceMin p \<and> workpieceMax q = workpieceMax p))
   \<and> (collectBBoxes ts gb path Map.empty [] = Inr [] \<longrightarrow>
        (\<exists>q. updateAutomaticWorkpiece ts gb ir path p = Inr q
           \<and> workpiece q = workpiece p
           \<and> workpieceMin q = workpieceMin p \<and> workpieceMax q = workpieceMax p))"
proof -
  have off: "\<not> getAutomaticWorkpiece p \<longrightarrow> updateAutomaticWorkpiece ts gb ir path p = Inr p"
    by (simp add: updateAutomaticWorkpiece_def)
  have none: "\<exists>q. updateAutomaticWorkpiece ts gb ir path p = Inr q
           \<and> workpiece q = workpiece p
           \<and> workpieceMin q = workpieceMin p \<and> workpieceMax q = workpieceMax p"
    if "collectBBoxes ts gb path Map.empty [] = Inr []"
  proof (cases "getAutomaticWorkpiece p")
    case True
    then have "updateAutomaticWorkpiece ts gb ir path p = Inr (setAutomaticWorkpiece True p)"
      using that by (simp add: updateAutomaticWorkpiece_def Let_def)
    then show ?thesis using setAutomaticWorkpiece_frame [of True p] by simp
  next
    case False
    then show ?thesis by (simp add: updateAutomaticWorkpiece_def)
  qed
  have skip: "collectBBoxes ts gb path Map.empty [] = Inr []"
    if "\<forall>m \<in> set path. getType m = MOVE_RAPID \<or> getTool m < 0"
    using that by (rule collectBBoxes_skip)
  from off none skip show ?thesis by blast
qed

theorem updateAutomaticWorkpiece_frame_witness:
  "\<not> getAutomaticWorkpiece
        (Project_new\<lparr>workpieceMin := Some (Vector3D 0 0 0), workpieceMax := Some (Vector3D 1 1 1)\<rparr>)
   \<and> updateAutomaticWorkpiece (\<lambda>n. Inr (ConicSweep 10 1 1)) (\<lambda>s a b. [Rectangle3D_of a b])
        (\<lambda>r. True)
        [\<lparr>getType = MOVE_CUTTING, getTool = 1, getStartPt = Vector3D 0 0 0,
          getEndPt = Vector3D 1 0 0\<rparr>]
        (Project_new\<lparr>workpieceMin := Some (Vector3D 0 0 0), workpieceMax := Some (Vector3D 1 1 1)\<rparr>)
      = Inr (Project_new\<lparr>workpieceMin := Some (Vector3D 0 0 0), workpieceMax := Some (Vector3D 1 1 1)\<rparr>)
   \<and> (\<exists>q. updateAutomaticWorkpiece (\<lambda>n. Inr (ConicSweep 10 1 1)) (\<lambda>s a b. [Rectangle3D_of a b])
        (\<lambda>r. True)
        [\<lparr>getType = MOVE_RAPID, getTool = 1, getStartPt = Vector3D 0 0 0,
          getEndPt = Vector3D 1 0 0\<rparr>,
         \<lparr>getType = MOVE_CUTTING, getTool = - 1, getStartPt = Vector3D 1 0 0,
          getEndPt = Vector3D 2 0 0\<rparr>]
        Project_new = Inr q
        \<and> workpiece q = workpiece Project_new
        \<and> workpieceMin q = workpieceMin Project_new
        \<and> workpieceMax q = workpieceMax Project_new)"
proof -
  let ?P = "Project_new\<lparr>workpieceMin := Some (Vector3D 0 0 0), workpieceMax := Some (Vector3D 1 1 1)\<rparr>"
  let ?path = "[\<lparr>getType = MOVE_RAPID, getTool = 1, getStartPt = Vector3D 0 0 0,
          getEndPt = Vector3D 1 0 0\<rparr>,
         \<lparr>getType = MOVE_CUTTING, getTool = - 1, getStartPt = Vector3D 1 0 0,
          getEndPt = Vector3D 2 0 0\<rparr>]"
  have off: "\<not> getAutomaticWorkpiece ?P"
    by (simp add: getAutomaticWorkpiece_def Project_new_def)
  have skip: "\<forall>m \<in> set ?path. getType m = MOVE_RAPID \<or> getTool m < 0"
    by simp
  show ?thesis
    using updateAutomaticWorkpiece_frame [where p = ?P] 
      updateAutomaticWorkpiece_frame [where p = Project_new and path = ?path] off skip
    by blast
qed

section \<open>Automatic workpiece: the committed slab\<close>

lemma slabFromBounds_shape:
  assumes "vec_z (rmin U) \<le> 0"
  shows "vec_z (rmax (slabFromBounds U)) = 0"
    and "2 \<le> getHeight (slabFromBounds U)"
    and "vec_x (rmin (slabFromBounds U)) \<le> vec_x (rmax (slabFromBounds U))"
    and "vec_y (rmin (slabFromBounds U)) \<le> vec_y (rmax (slabFromBounds U))"
    and "vec_z (rmin (slabFromBounds U)) \<le> vec_z (rmax (slabFromBounds U))"
  using assms
  by (auto simp add: slabFromBounds_def Let_def getMin_def getMax_def Rectangle3D_of_def
      add_point_def getHeight_def getDimensions_def vec_sub_def)

lemma margin_step:
  assumes "vec_x (rmin S) \<le> vec_x (rmax S)"
    and "vec_y (rmin S) \<le> vec_y (rmax S)"
    and "vec_z (rmin S) \<le> vec_z (rmax S)"
    and "0 \<le> vec_x M" and "0 \<le> vec_y M" and "0 \<le> vec_z M"
  shows "add_point (add_point S (vec_sub (rmin S) M))
           (vec_add (rmax (add_point S (vec_sub (rmin S) M)))
              (Vector3D (vec_x M) (vec_y M) 0))
         = \<lparr>rmin = vec_sub (rmin S) M,
            rmax = vec_add (rmax S) (Vector3D (vec_x M) (vec_y M) 0)\<rparr>"
  using assms
  by (auto simp add: add_point_def vec_sub_def vec_add_def)

lemma withMargin_wellformed:
  assumes "vec_x (rmin S) \<le> vec_x (rmax S)"
    and "vec_y (rmin S) \<le> vec_y (rmax S)"
    and "vec_z (rmin S) \<le> vec_z (rmax S)"
    and "0 \<le> m"
  shows "withMargin m S
         = \<lparr>rmin = vec_sub (rmin S) (vec_div (vec_mul (getDimensions S) m) 100),
            rmax = vec_add (rmax S)
                     (Vector3D (vec_x (vec_div (vec_mul (getDimensions S) m) 100))
                               (vec_y (vec_div (vec_mul (getDimensions S) m) 100)) 0)\<rparr>"
proof -
  let ?M = "vec_div (vec_mul (getDimensions S) m) 100"
  have "0 \<le> vec_x ?M" "0 \<le> vec_y ?M" "0 \<le> vec_z ?M"
    using assms
    by (simp_all add: vec_div_def vec_mul_def getDimensions_def vec_sub_def)
  from margin_step [OF assms(1-3) this] show ?thesis
    by (simp add: withMargin_def Let_def getMin_def getMax_def)
qed

lemma setWorkpieceBounds_workpiece: "workpiece (setWorkpieceBounds b p) = b"
  by (simp add: setWorkpieceBounds_def Let_def markDirty_def)

text \<open>
  Claim C2, as the code has it.  Let \<open>U\<close> be the union of the collected boxes, \<open>S\<close> the
  slab made from it (top clamped, at least 2mm thick) and \<open>M\<close> the margin vector, the
  workpiece margin in percent of the extents of \<open>S\<close>.  If the automatic workpiece is
  enabled, \<open>U\<close> is not the default-constructed rectangle, \<open>S\<close> is real, the lowest
  point of \<open>U\<close> is at \<open>z \<le> 0\<close> and the margin is not negative, then
  \<open>updateAutomaticWorkpiece\<close> returns normally and commits the slab with these
  properties: the top face of \<open>S\<close> and of the committed slab is at \<open>z = 0\<close>; both are
  at least 2mm high; the margin step moves the minimum corner by \<open>M\<close> in all three
  axes and the maximum corner by \<open>M\<close> in X and Y only.  So the width and the depth grow
  by twice the margin, and the height grows by the margin percentage of the height of
  \<open>S\<close>, downward.
\<close>

theorem updateAutomaticWorkpiece_commit:
  fixes bboxes :: "Rectangle3D list" and p :: Project
    and U S :: Rectangle3D and M :: Vector3D
  defines "U \<equiv> foldl add_rect Rectangle3D_default bboxes"
  defines "S \<equiv> slabFromBounds U"
  defines "M \<equiv> vec_div (vec_mul (getDimensions S) (workpieceMargin p)) 100"
  assumes auto: "getAutomaticWorkpiece p"
    and boxes: "collectBBoxes ts gb path Map.empty [] = Inr bboxes"
    and nonempty: "U \<noteq> Rectangle3D_default"
    and real: "ir S"
    and low: "vec_z (rmin U) \<le> 0"
    and margin: "0 \<le> workpieceMargin p"
  shows "\<exists>q. updateAutomaticWorkpiece ts gb ir path p = Inr q
           \<and> workpiece q = withMargin (workpieceMargin p) S
           \<and> vec_z (rmax S) = 0
           \<and> 2 \<le> getHeight S
           \<and> workpiece q =
               \<lparr>rmin = vec_sub (rmin S) M,
                rmax = vec_add (rmax S) (Vector3D (vec_x M) (vec_y M) 0)\<rparr>
           \<and> vec_z (rmax (workpiece q)) = 0
           \<and> 2 \<le> getHeight (workpiece q)
           \<and> getWidth (workpiece q) = getWidth S + 2 * (getWidth S * workpieceMargin p / 100)
           \<and> getDepth (workpiece q) = getDepth S + 2 * (getDepth S * workpieceMargin p / 100)
           \<and> getHeight (workpiece q) = getHeight S + getHeight S * workpieceMargin p / 100"
proof -
  let ?p1 = "setAutomaticWorkpiece True p"
  let ?m = "workpieceMargin p"
  let ?W = "withMargin ?m S"
  have m1: "getWorkpieceMargin ?p1 = ?m"
    by (simp add: getWorkpieceMargin_def setAutomaticWorkpiece_def markDirty_def Let_def)
  have run: "updateAutomaticWorkpiece ts gb ir path p = Inr (setWorkpieceBounds ?W ?p1)"
    using auto boxes nonempty real
    by (simp add: updateAutomaticWorkpiece_def Let_def m1 U_def S_def)
  have top: "vec_z (rmax S) = 0" and thick: "2 \<le> getHeight S"
    and wf: "vec_x (rmin S) \<le> vec_x (rmax S)" "vec_y (rmin S) \<le> vec_y (rmax S)"
      "vec_z (rmin S) \<le> vec_z (rmax S)"
    unfolding S_def using slabFromBounds_shape [OF low] by simp_all
  have W: "?W = \<lparr>rmin = vec_sub (rmin S) M,
                rmax = vec_add (rmax S) (Vector3D (vec_x M) (vec_y M) 0)\<rparr>"
    unfolding M_def by (rule withMargin_wellformed [OF wf margin])
  have Mz: "vec_z M = getHeight S * ?m / 100" and Mx: "vec_x M = getWidth S * ?m / 100"
    and My: "vec_y M = getDepth S * ?m / 100"
    by (simp_all add: M_def vec_div_def vec_mul_def getHeight_def getWidth_def getDepth_def)
  have Mz0: "0 \<le> vec_z M"
    using thick margin by (simp add: Mz)
  have topW: "vec_z (rmax ?W) = 0"
    by (simp add: W vec_add_def top)
  have hW: "getHeight ?W = getHeight S + getHeight S * ?m / 100"
    by (simp add: W getHeight_def getDimensions_def vec_sub_def vec_add_def Mz)
  have wW: "getWidth ?W = getWidth S + 2 * (getWidth S * ?m / 100)"
    by (simp add: W getWidth_def getDimensions_def vec_sub_def vec_add_def Mx)
  have dW: "getDepth ?W = getDepth S + 2 * (getDepth S * ?m / 100)"
    by (simp add: W getDepth_def getDimensions_def vec_sub_def vec_add_def My)
  have thickW: "2 \<le> getHeight ?W"
    using thick Mz0 by (simp add: hW Mz)
  have wq: "workpiece (setWorkpieceBounds ?W ?p1) = ?W"
    by (rule setWorkpieceBounds_workpiece)
  show ?thesis
    using run wq top thick W topW thickW wW dW hW by (metis (no_types))
qed

lemma example_collect:
  "collectBBoxes (\<lambda>n. Inr (ConicSweep 1 5 5))
     (\<lambda>s a b. [Rectangle3D_of (vec_sub a (Vector3D 5 5 0)) (vec_add b (Vector3D 5 5 1))])
     [\<lparr>getType = MOVE_CUTTING, getTool = 1, getStartPt = Vector3D 0 0 (- 1),
       getEndPt = Vector3D 0 0 (- 1)\<rparr>] Map.empty []
   = Inr [\<lparr>rmin = Vector3D (- 5) (- 5) (- 1), rmax = Vector3D 5 5 0\<rparr>]"
  by (simp add: Rectangle3D_of_def vec_sub_def vec_add_def)

lemma example_union:
  "add_rect Rectangle3D_default \<lparr>rmin = Vector3D (- 5) (- 5) (- 1), rmax = Vector3D 5 5 0\<rparr>
   = \<lparr>rmin = Vector3D (- 5) (- 5) (- 1), rmax = Vector3D 5 5 0\<rparr>"
proof -
  have "5 < DBL_MAX"
    by (simp add: DBL_MAX_def)
  then show ?thesis
    by (simp add: add_rect_def add_point_def Rectangle3D_default_def)
qed

lemma example_nonempty:
  "\<lparr>rmin = Vector3D (- 5) (- 5) (- 1), rmax = Vector3D 5 5 0\<rparr> \<noteq> Rectangle3D_default"
  using DBL_MAX_pos by (simp add: Rectangle3D_default_def)

lemma example_slab:
  "slabFromBounds \<lparr>rmin = Vector3D (- 5) (- 5) (- 1), rmax = Vector3D 5 5 0\<rparr>
   = \<lparr>rmin = Vector3D (- 5) (- 5) (- 3), rmax = Vector3D 5 5 0\<rparr>"
  by (simp add: slabFromBounds_def Let_def getMin_def getMax_def Rectangle3D_of_def
      add_point_def getHeight_def getDimensions_def vec_sub_def)

lemma example_margin:
  "withMargin 5 \<lparr>rmin = Vector3D (- 5) (- 5) (- 3), rmax = Vector3D 5 5 0\<rparr>
   = \<lparr>rmin = Vector3D (- 5.5) (- 5.5) (- 3.15), rmax = Vector3D 5.5 5.5 0\<rparr>"
  by (simp add: withMargin_def Let_def getMin_def getMax_def add_point_def
      getDimensions_def vec_sub_def vec_add_def vec_mul_def vec_div_def)

theorem updateAutomaticWorkpiece_commit_witness:
  "getAutomaticWorkpiece Project_new
   \<and> 0 \<le> workpieceMargin Project_new
   \<and> (\<exists>q. updateAutomaticWorkpiece (\<lambda>n. Inr (ConicSweep 1 5 5))
          (\<lambda>s a b. [Rectangle3D_of (vec_sub a (Vector3D 5 5 0)) (vec_add b (Vector3D 5 5 1))])
          (\<lambda>r. True)
          [\<lparr>getType = MOVE_CUTTING, getTool = 1, getStartPt = Vector3D 0 0 (- 1),
            getEndPt = Vector3D 0 0 (- 1)\<rparr>] Project_new = Inr q
        \<and> workpiece q = \<lparr>rmin = Vector3D (- 5.5) (- 5.5) (- 3.15), rmax = Vector3D 5.5 5.5 0\<rparr>
        \<and> vec_z (rmax (workpiece q)) = 0
        \<and> 2 \<le> getHeight (workpiece q))"
proof -
  let ?B = "\<lparr>rmin = Vector3D (- 5) (- 5) (- 1), rmax = Vector3D 5 5 0\<rparr>"
  have auto: "getAutomaticWorkpiece Project_new"
    by (simp add: getAutomaticWorkpiece_def Project_new_def)
  have m: "workpieceMargin Project_new = 5"
    by (simp add: Project_new_def)
  have h: "0 \<le> workpieceMargin Project_new"
    by (simp add: m)
  have u: "foldl add_rect Rectangle3D_default [?B] = ?B"
    by (simp add: example_union)
  have ne: "foldl add_rect Rectangle3D_default [?B] \<noteq> Rectangle3D_default"
    unfolding u by (rule example_nonempty)
  have ir: "(\<lambda>r. True) (slabFromBounds (foldl add_rect Rectangle3D_default [?B]))"
    by simp
  have low: "vec_z (rmin (foldl add_rect Rectangle3D_default [?B])) \<le> 0"
    unfolding u by simp
  from updateAutomaticWorkpiece_commit [OF auto example_collect ne ir low h]
  show ?thesis
    unfolding u example_slab m example_margin using auto h by auto
qed

text \<open>
  Claim C2 as stated fails in its last part: the margin step changes the z-extent.  For
  one cutting move whose box is 10 by 10 by 1 with its top at \<open>z = 0\<close> and the default
  margin of 5 percent, the slab before the margin step is 3 high and the committed slab
  is 3.15 high.
\<close>

theorem margin_changes_height_counterexample:
  "updateAutomaticWorkpiece (\<lambda>n. Inr (ConicSweep 1 5 5))
      (\<lambda>s a b. [Rectangle3D_of (vec_sub a (Vector3D 5 5 0)) (vec_add b (Vector3D 5 5 1))])
      (\<lambda>r. True)
      [\<lparr>getType = MOVE_CUTTING, getTool = 1, getStartPt = Vector3D 0 0 (- 1),
        getEndPt = Vector3D 0 0 (- 1)\<rparr>] Project_new
    = Inr (setWorkpieceBounds
             (withMargin 5 \<lparr>rmin = Vector3D (- 5) (- 5) (- 3), rmax = Vector3D 5 5 0\<rparr>)
             (setAutomaticWorkpiece True Project_new))
   \<and> workpiece (setWorkpieceBounds
             (withMargin 5 \<lparr>rmin = Vector3D (- 5) (- 5) (- 3), rmax = Vector3D 5 5 0\<rparr>)
             (setAutomaticWorkpiece True Project_new))
       = \<lparr>rmin = Vector3D (- 5.5) (- 5.5) (- 3.15), rmax = Vector3D 5.5 5.5 0\<rparr>
   \<and> getHeight \<lparr>rmin = Vector3D (- 5) (- 5) (- 3), rmax = Vector3D 5 5 0\<rparr> = 3
   \<and> getHeight \<lparr>rmin = Vector3D (- 5.5) (- 5.5) (- 3.15), rmax = Vector3D 5.5 5.5 0\<rparr> = 3.15"
proof -
  have auto: "getAutomaticWorkpiece Project_new"
    by (simp add: getAutomaticWorkpiece_def Project_new_def)
  have m: "getWorkpieceMargin (setAutomaticWorkpiece True Project_new) = 5"
    by (simp add: getWorkpieceMargin_def setAutomaticWorkpiece_def markDirty_def Let_def
        Project_new_def)
  have run: "updateAutomaticWorkpiece (\<lambda>n. Inr (ConicSweep 1 5 5))
      (\<lambda>s a b. [Rectangle3D_of (vec_sub a (Vector3D 5 5 0)) (vec_add b (Vector3D 5 5 1))])
      (\<lambda>r. True)
      [\<lparr>getType = MOVE_CUTTING, getTool = 1, getStartPt = Vector3D 0 0 (- 1),
        getEndPt = Vector3D 0 0 (- 1)\<rparr>] Project_new
    = Inr (setWorkpieceBounds
             (withMargin 5 \<lparr>rmin = Vector3D (- 5) (- 5) (- 3), rmax = Vector3D 5 5 0\<rparr>)
             (setAutomaticWorkpiece True Project_new))"
    unfolding updateAutomaticWorkpiece_def Let_def example_collect
    using auto example_nonempty by (simp add: example_union example_slab m)
  have wp: "workpiece (setWorkpieceBounds
             (withMargin 5 \<lparr>rmin = Vector3D (- 5) (- 5) (- 3), rmax = Vector3D 5 5 0\<rparr>)
             (setAutomaticWorkpiece True Project_new))
       = \<lparr>rmin = Vector3D (- 5.5) (- 5.5) (- 3.15), rmax = Vector3D 5.5 5.5 0\<rparr>"
    by (simp add: setWorkpieceBounds_workpiece example_margin)
  have h: "getHeight \<lparr>rmin = Vector3D (- 5) (- 5) (- 3), rmax = Vector3D 5 5 0\<rparr> = 3"
    "getHeight \<lparr>rmin = Vector3D (- 5.5) (- 5.5) (- 3.15), rmax = Vector3D 5.5 5.5 0\<rparr> = 3.15"
    by (simp_all add: getHeight_def getDimensions_def vec_sub_def)
  show ?thesis using run wp h by simp
qed

section \<open>Double-precision arithmetic: rounding error and evaluation\<close>

text \<open>
  The rounding error of \<open>fl\<close> is at most half a unit in the last place, a relative error
  of at most \<open>2 ^ - 53\<close>; doubling and halving are exact; and \<open>fl\<close> of a given number is
  computed from the exponent \<open>k\<close> that brings it into \<open>[2 ^ 52, 2 ^ 53)\<close>.
\<close>

lemma round_even_error: "\<bar>of_int (round_even x) - x\<bar> \<le> 1 / 2"
proof -
  have "of_int \<lfloor>x\<rfloor> \<le> x" "x < of_int \<lfloor>x\<rfloor> + 1"
    by linarith+
  then show ?thesis
    by (auto simp add: round_even_def Let_def)
qed

lemma two_powr_int_diff:
  fixes k :: nat and n :: nat
  shows "(2 :: real) powr (of_int (int n - int k)) = 2 ^ n / 2 ^ k"
proof -
  have "(2 :: real) powr (of_int (int n - int k)) = 2 powr (real n - real k)"
    by simp
  also have "\<dots> = 2 powr real n / 2 powr real k"
    by (rule powr_diff)
  also have "\<dots> = 2 ^ n / 2 ^ k"
    by (simp only: powr_realpow [of 2, OF zero_less_numeral])
  finally show ?thesis .
qed

lemma fl_eval:
  fixes k :: nat
  assumes lo: "2 ^ 52 \<le> \<bar>x\<bar> * 2 ^ k" and hi: "\<bar>x\<bar> * 2 ^ k < 2 ^ 53"
  shows "fl x = of_int (round_even (x * 2 ^ k)) / 2 ^ k"
proof -
  have x0: "x \<noteq> 0" using lo by auto
  then have ax: "0 < \<bar>x\<bar>" by simp
  have p: "(2 :: real) powr of_int (52 - int k) = 2 ^ 52 / 2 ^ k"
    using two_powr_int_diff [of 52 k] by simp
  have p1: "(2 :: real) powr of_int (52 - int k + 1) = 2 ^ 53 / 2 ^ k"
    using two_powr_int_diff [of 53 k] by (simp add: algebra_simps)
  have b1: "2 powr of_int (52 - int k) \<le> \<bar>x\<bar>"
    unfolding p using lo by (simp add: field_simps)
  have b2: "\<bar>x\<bar> < 2 powr of_int (52 - int k + 1)"
    unfolding p1 using hi by (simp add: field_simps)
  have e: "\<lfloor>log 2 \<bar>x\<bar>\<rfloor> = 52 - int k"
    using floor_log_eq_powr_iff [of "\<bar>x\<bar>" 2 "52 - int k"] ax b1 b2 by simp
  have q: "(2 :: real) powr of_int (52 - int k - 52) = 1 / 2 ^ k"
    using two_powr_int_diff [of 0 k] by simp
  show ?thesis
    unfolding fl_def Let_def e q using x0 by simp
qed

lemma fl_error: "\<bar>fl x - x\<bar> \<le> \<bar>x\<bar> / 2 ^ 53"
proof (cases "x = 0")
  case True
  then show ?thesis by (simp add: fl_def)
next
  case False
  define e where "e = \<lfloor>log 2 \<bar>x\<bar>\<rfloor>"
  define p where "p = (2 :: real) powr of_int (e - 52)"
  have ax: "0 < \<bar>x\<bar>" using False by simp
  have ppos: "0 < p" by (simp add: p_def)
  have "of_int e \<le> log 2 \<bar>x\<bar>" by (simp add: e_def)
  then have "2 powr of_int e \<le> 2 powr log 2 \<bar>x\<bar>"
    by (rule powr_mono) simp_all
  then have lo: "2 powr of_int e \<le> \<bar>x\<bar>"
    using ax by simp
  have "p * 2 powr 52 = 2 powr (of_int (e - 52) + 52)"
    unfolding p_def by (simp only: powr_add)
  then have pe: "p * 2 ^ 52 = 2 powr of_int e"
    by simp
  have f: "fl x = of_int (round_even (x / p)) * p"
    using False by (simp add: fl_def Let_def e_def p_def)
  have "fl x - x = (of_int (round_even (x / p)) - x / p) * p"
    using ppos by (simp add: f field_simps)
  then have "\<bar>fl x - x\<bar> = \<bar>of_int (round_even (x / p)) - x / p\<bar> * p"
    using ppos by (simp add: abs_mult)
  also have "\<dots> \<le> 1 / 2 * p"
    using round_even_error [of "x / p"] ppos by (simp add: mult_right_mono)
  also have "\<dots> = 2 powr of_int e / 2 ^ 53"
    using pe by (simp add: field_simps)
  also have "\<dots> \<le> \<bar>x\<bar> / 2 ^ 53"
    using lo by (simp add: divide_right_mono)
  finally show ?thesis .
qed






lemma fl_one: "fl 1 = 1"
  by (subst fl_eval [of _ 52]) (simp_all add: round_even_def Let_def)

lemma fl_ten: "fl 10 = 10"
  by (subst fl_eval [of _ 49]) (simp_all add: round_even_def Let_def)

lemma fl_one_half: "fl (1 / 2) = 1 / 2"
  by (subst fl_eval [of _ 53]) (simp_all add: round_even_def Let_def)

lemma M_PI_value: "M_PI = 884279719003555 / 281474976710656"
  unfolding M_PI_def
  by (subst fl_eval [of _ 51]) (simp_all add: round_even_def Let_def)

lemma parseDecimal_examples:
  "parseDecimal ''1'' = Inr 1" "parseDecimal ''0.5'' = Inr (1 / 2)"
  "parseDecimal ''10'' = Inr 10"
  "parseDecimal ''1e309'' = Inl (InvalidValue ''1e309'')"
proof -
  have big: "10 \<le> DBL_MAX" "DBL_MAX < 10 ^ 309"
    by (simp_all add: DBL_MAX_def)
  show "parseDecimal ''1'' = Inr 1" "parseDecimal ''0.5'' = Inr (1 / 2)"
    "parseDecimal ''10'' = Inr 10"
    "parseDecimal ''1e309'' = Inl (InvalidValue ''1e309'')"
    using big
    by (simp_all add: parseDecimal_def splitSign_def isDigit_def natOfDigits_def Let_def
        fl_one fl_ten fl_one_half)
qed

section \<open>Tool angle and length\<close>

text \<open>
  Bounds on the arc tangent and on \<open>pi\<close>, from the alternating series of the arc
  tangent and Machin's formula, and with them the distance of \<open>M_PI\<close> from \<open>pi\<close>.
\<close>

lemma arctan_series_bounds:
  fixes x :: real
  assumes "0 < x" and "x \<le> 1"
  shows "(\<Sum>i<2 * n. (- 1) ^ i * (1 / real (i * 2 + 1) * x ^ (i * 2 + 1))) \<le> arctan x"
    and "arctan x \<le> (\<Sum>i<2 * n + 1. (- 1) ^ i * (1 / real (i * 2 + 1) * x ^ (i * 2 + 1)))"
proof -
  have ax: "\<bar>x\<bar> \<le> 1"
    using assms by simp
  note lz = summable_Leibniz(2) [OF zeroseq_arctan_series [OF ax] monoseq_arctan_series [OF ax]]
  have between: "(\<Sum>i<2 * n. (- 1) ^ i * (1 / real (i * 2 + 1) * x ^ (i * 2 + 1))) \<le> arctan x
      \<and> arctan x \<le> (\<Sum>i<2 * n + 1. (- 1) ^ i * (1 / real (i * 2 + 1) * x ^ (i * 2 + 1)))"
    using lz assms(1) by (simp add: arctan_series [OF ax])
  from between
  show "(\<Sum>i<2 * n. (- 1) ^ i * (1 / real (i * 2 + 1) * x ^ (i * 2 + 1))) \<le> arctan x"
    and "arctan x \<le> (\<Sum>i<2 * n + 1. (- 1) ^ i * (1 / real (i * 2 + 1) * x ^ (i * 2 + 1)))"
    by blast+
qed

lemma arctan_le_self_pos:
  fixes x :: real
  assumes "0 < x" and "x \<le> 1"
  shows "arctan x \<le> x"
  using arctan_series_bounds(2) [OF assms, of 0] by simp

lemma arctan_fifth_bounds:
  "19739555984988075 / 100000000000000000 \<le> arctan (1 / 5 :: real)"
  "arctan (1 / 5 :: real) \<le> 19739555984988076 / 100000000000000000"
proof -
  have "(\<Sum>i<2 * 6. (- 1) ^ i * (1 / real (i * 2 + 1) * (1 / 5) ^ (i * 2 + 1)))
        \<le> arctan (1 / 5 :: real)"
    by (rule arctan_series_bounds(1)) simp_all
  then show "19739555984988075 / 100000000000000000 \<le> arctan (1 / 5 :: real)"
    by (simp add: eval_nat_numeral)
  have "arctan (1 / 5 :: real)
        \<le> (\<Sum>i<2 * 6 + 1. (- 1) ^ i * (1 / real (i * 2 + 1) * (1 / 5) ^ (i * 2 + 1)))"
    by (rule arctan_series_bounds(2)) simp_all
  then show "arctan (1 / 5 :: real) \<le> 19739555984988076 / 100000000000000000"
    by (simp add: eval_nat_numeral)
qed

lemma arctan_239th_bounds:
  "4184076002074723 / 1000000000000000000 \<le> arctan (1 / 239 :: real)"
  "arctan (1 / 239 :: real) \<le> 4184076002074724 / 1000000000000000000"
proof -
  have "(\<Sum>i<2 * 2. (- 1) ^ i * (1 / real (i * 2 + 1) * (1 / 239) ^ (i * 2 + 1)))
        \<le> arctan (1 / 239 :: real)"
    by (rule arctan_series_bounds(1)) simp_all
  then show "4184076002074723 / 1000000000000000000 \<le> arctan (1 / 239 :: real)"
    by (simp add: eval_nat_numeral)
  have "arctan (1 / 239 :: real)
        \<le> (\<Sum>i<2 * 2 + 1. (- 1) ^ i * (1 / real (i * 2 + 1) * (1 / 239) ^ (i * 2 + 1)))"
    by (rule arctan_series_bounds(2)) simp_all
  then show "arctan (1 / 239 :: real) \<le> 4184076002074724 / 1000000000000000000"
    by (simp add: eval_nat_numeral)
qed

lemma arctan_tenth_bounds:
  "99668652 / 1000000000 \<le> arctan (1 / 10 :: real)"
  "arctan (1 / 10 :: real) \<le> 99668653 / 1000000000"
proof -
  have "(\<Sum>i<2 * 2. (- 1) ^ i * (1 / real (i * 2 + 1) * (1 / 10) ^ (i * 2 + 1)))
        \<le> arctan (1 / 10 :: real)"
    by (rule arctan_series_bounds(1)) simp_all
  then show "99668652 / 1000000000 \<le> arctan (1 / 10 :: real)"
    by (simp add: eval_nat_numeral)
  have "arctan (1 / 10 :: real)
        \<le> (\<Sum>i<2 * 2 + 1. (- 1) ^ i * (1 / real (i * 2 + 1) * (1 / 10) ^ (i * 2 + 1)))"
    by (rule arctan_series_bounds(2)) simp_all
  then show "arctan (1 / 10 :: real) \<le> 99668653 / 1000000000"
    by (simp add: eval_nat_numeral)
qed

lemma pi_bounds:
  "3141592653589793 / 1000000000000000 < pi" "pi < 3141592653589794 / 1000000000000000"
proof -
  have m: "pi = 16 * arctan (1 / 5) - 4 * arctan (1 / 239)"
    using machin by simp
  show "3141592653589793 / 1000000000000000 < pi"
    unfolding m using arctan_fifth_bounds(1) arctan_239th_bounds(2) by linarith
  show "pi < 3141592653589794 / 1000000000000000"
    unfolding m using arctan_fifth_bounds(2) arctan_239th_bounds(1) by linarith
qed

lemma M_PI_error: "\<bar>M_PI - pi\<bar> \<le> 1 / 1000000000000000"
  unfolding M_PI_value using pi_bounds by linarith

lemma M_PI_range: "3 < M_PI" "M_PI < 4"
  unfolding M_PI_value by simp_all

lemma pi_range: "3 < pi" "pi < 4"
  using pi_bounds by linarith+

lemma fl_bound:
  assumes "\<bar>x\<bar> \<le> b"
  shows "\<bar>fl x - x\<bar> \<le> b / 2 ^ 53"
proof -
  have "\<bar>x\<bar> / 2 ^ 53 \<le> b / 2 ^ 53"
    using assms by (rule divide_right_mono) simp
  with fl_error [of x] show ?thesis by linarith
qed

lemma c_round_error: "\<bar>c_round v - v\<bar> \<le> 1 / 2"
proof (cases "0 \<le> v")
  case True
  have "c_round v = of_int \<lfloor>v + 1 / 2\<rfloor>"
    using True by (simp add: c_round_def)
  moreover have "of_int \<lfloor>v + 1 / 2\<rfloor> \<le> v + 1 / 2" "v + 1 / 2 < of_int \<lfloor>v + 1 / 2\<rfloor> + 1"
    by linarith+
  ultimately show ?thesis
    by linarith
next
  case False
  have "c_round v = of_int \<lceil>v - 1 / 2\<rceil>"
    using False by (simp add: c_round_def)
  moreover have "v - 1 / 2 \<le> of_int \<lceil>v - 1 / 2\<rceil>" "of_int \<lceil>v - 1 / 2\<rceil> < v - 1 / 2 + 1"
    by linarith+
  ultimately show ?thesis
    by linarith
qed

lemma c_round_int: "\<exists>n :: int. c_round v = of_int n"
  by (simp add: c_round_def)

lemma arctan_perturb:
  fixes m q d :: real
  assumes m: "0 < m" and q: "\<bar>q - m\<bar> \<le> m * d" and d: "0 \<le> d" "d \<le> 1 / 2"
  shows "\<bar>arctan q - arctan m\<bar> \<le> d"
proof -
  have step: "arctan b - arctan a \<le> d"
    if ab: "a < b" and lo: "m / 2 \<le> a" and w: "b - a \<le> m * d" for a b :: real
  proof -
    have "\<exists>z. a < z \<and> z < b \<and> arctan b - arctan a = (b - a) * inverse (1 + z\<^sup>2)"
      using ab by (intro MVT2) (auto intro: DERIV_arctan)
    then obtain z where z: "a < z" "z < b"
      "arctan b - arctan a = (b - a) * inverse (1 + z\<^sup>2)"
      by blast
    have "m / 2 \<le> z" using lo z(1) by simp
    moreover have "0 \<le> m / 2" using m by simp
    ultimately have "(m / 2)\<^sup>2 \<le> z\<^sup>2"
      by (rule power_mono)
    moreover have "0 \<le> (1 - m / 2)\<^sup>2"
      by simp
    moreover have "(1 - m / 2)\<^sup>2 = 1 - m + (m / 2)\<^sup>2"
      by (simp add: power2_eq_square algebra_simps)
    ultimately have mz: "m \<le> 1 + z\<^sup>2"
      by linarith
    have pos: "0 < 1 + z\<^sup>2"
      using m mz by linarith
    have "(b - a) * inverse (1 + z\<^sup>2) \<le> (m * d) * inverse (1 + z\<^sup>2)"
      using w pos by (intro mult_right_mono) simp_all
    also have "\<dots> = d * (m / (1 + z\<^sup>2))"
      by (simp add: field_simps)
    also have "\<dots> \<le> d * 1"
      using mz pos d(1) by (intro mult_left_mono) simp_all
    finally show ?thesis
      using z(3) by simp
  qed
  have half: "m / 2 \<le> m - m * d"
  proof -
    have "m * d \<le> m * (1 / 2)"
      using d(2) m by (intro mult_left_mono) simp_all
    then show ?thesis by simp
  qed
  consider "q = m" | "q < m" | "m < q"
    by linarith
  then show ?thesis
  proof cases
    case 1
    then show ?thesis using d(1) by simp
  next
    case 2
    have "m / 2 \<le> q" using q half by linarith
    moreover have "m - q \<le> m * d" using q by linarith
    ultimately have "arctan m - arctan q \<le> d"
      using step [OF 2] by blast
    moreover have "arctan q < arctan m"
      using 2 by (simp add: arctan_less_iff)
    ultimately show ?thesis by linarith
  next
    case 3
    have "m / 2 \<le> m" using m by simp
    moreover have "q - m \<le> m * d" using q by linarith
    ultimately have "arctan q - arctan m \<le> d"
      using step [OF 3] by blast
    moreover have "arctan m < arctan q"
      using 3 by (simp add: arctan_less_iff)
    ultimately show ?thesis by linarith
  qed
qed

text \<open>
  The rounding errors of \<open>getAngle\<close>, one operation after the other: each \<open>fl\<close> adds at
  most \<open>2 ^ - 53\<close> of the magnitude of its argument, the library's \<^verbatim>\<open>atan\<close> at most
  \<open>2 ^ - 52\<close> of its result, and \<open>M_PI\<close> is within \<open>1 / 10 ^ 15\<close> of \<open>pi\<close>.
\<close>

lemma getAngle_error:
  fixes atan_d :: "real \<Rightarrow> real" and t :: Tool
  assumes acc: "\<forall>y. \<bar>atan_d y - arctan y\<bar> \<le> \<bar>arctan y\<bar> / 2 ^ 52"
    and r: "0 < radius t" and l: "0 < tlength t"
  shows "\<exists>n :: int. getAngle atan_d t = fl (of_int n / 100)
           \<and> \<bar>of_int n / 100 - (180 - 360 * arctan (tlength t / radius t) / pi)\<bar>
               \<le> 1 / 200 + 1 / 10 ^ 12
           \<and> \<bar>getAngle atan_d t - (180 - 360 * arctan (tlength t / radius t) / pi)\<bar>
               \<le> 1 / 200 + 1 / 10 ^ 12"
proof -
  define u :: real where "u = 1 / 2 ^ 53"
  define dl :: real where "dl = 1 / 1000000000000000"
  define m where "m = tlength t / radius t"
  define q where "q = fl m"
  define th where "th = arctan m"
  define A where "A = atan_d q"
  define B where "B = fl (360 * A)"
  define P where "P = B / M_PI"
  define C where "C = fl P"
  define D where "D = fl (180 - C)"
  define E where "E = fl (D * 100)"
  define R where "R = c_round E"
  define G where "G = fl (R / 100)"
  define Cx where "Cx = 360 * th / pi"
  define X where "X = 180 - Cx"
  have u0: "0 \<le> u" "u \<le> 1 / 2" "u \<le> 1 / 1000000"
    by (simp_all add: u_def)
  have dl0: "0 \<le> dl" "dl \<le> 1 / 1000000"
    by (simp_all add: dl_def)
  have flb: "\<bar>fl x - x\<bar> \<le> b * u" if "\<bar>x\<bar> \<le> b" for x b
    using fl_bound [OF that] by (simp add: u_def)
  have g: "getAngle atan_d t = G"
    by (simp add: getAngle_def Let_def G_def R_def E_def D_def C_def P_def B_def A_def
        q_def m_def)
  have m0: "0 < m"
    using r l by (simp add: m_def)
  have "\<bar>q - m\<bar> \<le> \<bar>m\<bar> * u"
    unfolding q_def by (rule flb) simp
  then have qm: "\<bar>q - m\<bar> \<le> m * u"
    using m0 by simp
  have "m * u \<le> m * (1 / 2)"
    using m0 u0(2) by (intro mult_left_mono) simp_all
  then have q0: "0 < q"
    using qm m0 by linarith
  have t1: "\<bar>arctan q - th\<bar> \<le> u"
    unfolding th_def by (rule arctan_perturb [OF m0 qm u0(1) u0(2)])
  have th0: "0 < th"
    using m0 by (simp add: th_def arctan_less_iff [of 0, simplified])
  have "th < pi / 2"
    unfolding th_def by (rule arctan_ubound)
  then have th2: "th < 2"
    using pi_range(2) by linarith
  have aq0: "0 < arctan q"
    using q0 by (simp add: arctan_less_iff [of 0, simplified])
  have "arctan q < pi / 2"
    by (rule arctan_ubound)
  then have aq2: "arctan q < 2"
    using pi_range(2) by linarith
  have "\<bar>A - arctan q\<bar> \<le> \<bar>arctan q\<bar> / 2 ^ 52"
    unfolding A_def using acc by blast
  also have "\<dots> \<le> 2 / 2 ^ 52"
    using aq0 aq2 by (intro divide_right_mono) simp_all
  also have "\<dots> = 4 * u"
    by (simp add: u_def)
  finally have t2: "\<bar>A - arctan q\<bar> \<le> 4 * u" .
  have t3: "\<bar>A - th\<bar> \<le> 5 * u"
    using t1 t2 by linarith
  have "\<bar>A\<bar> \<le> 3"
    using t3 th0 th2 u0 by linarith
  then have "\<bar>360 * A\<bar> \<le> 1080"
    by linarith
  then have t4: "\<bar>B - 360 * A\<bar> \<le> 1080 * u"
    unfolding B_def by (rule flb)
  have t5: "\<bar>B - 360 * th\<bar> \<le> 2880 * u"
    using t3 t4 by linarith
  have Cx0: "0 < Cx"
    using th0 by (simp add: Cx_def)
  have "360 * th / pi < 180"
    using \<open>th < pi / 2\<close> by (simp add: field_simps)
  then have Cx1: "Cx < 180"
    by (simp add: Cx_def)
  have Cxp: "Cx * pi = 360 * th"
    by (simp add: Cx_def)
  have PM: "P * M_PI = B"
    using M_PI_range(1) by (simp add: P_def)
  have "(P - Cx) * M_PI = (B - 360 * th) + Cx * (pi - M_PI)"
    using PM Cxp by (simp add: algebra_simps)
  moreover have "\<bar>Cx * (pi - M_PI)\<bar> \<le> 180 * dl"
  proof -
    have "\<bar>Cx * (pi - M_PI)\<bar> = \<bar>Cx\<bar> * \<bar>pi - M_PI\<bar>"
      by (rule abs_mult)
    also have "\<dots> \<le> 180 * dl"
    proof (rule mult_mono)
      show "\<bar>Cx\<bar> \<le> 180" using Cx0 Cx1 by simp
      show "\<bar>pi - M_PI\<bar> \<le> dl" unfolding dl_def using M_PI_error by linarith
    qed simp_all
    finally show ?thesis .
  qed
  ultimately have "\<bar>(P - Cx) * M_PI\<bar> \<le> 2880 * u + 180 * dl"
    using t5 by linarith
  then have "\<bar>P - Cx\<bar> * M_PI \<le> 2880 * u + 180 * dl"
    using M_PI_range(1) by (simp add: abs_mult)
  moreover define e where "e = \<bar>P - Cx\<bar>"
  ultimately have "e * M_PI \<le> 2880 * u + 180 * dl"
    by simp
  moreover have "e * 3 \<le> e * M_PI"
    using M_PI_range(1) by (intro mult_left_mono) (simp_all add: e_def)
  ultimately have "e \<le> 960 * u + 60 * dl"
    by linarith
  then have t6: "\<bar>P - Cx\<bar> \<le> 960 * u + 60 * dl"
    by (simp add: e_def)
  have "\<bar>P\<bar> \<le> 181"
    using t6 Cx0 Cx1 u0 dl0 by linarith
  then have t7: "\<bar>C - P\<bar> \<le> 181 * u"
    unfolding C_def by (rule flb)
  have "\<bar>180 - C\<bar> \<le> 182"
    using t6 t7 Cx0 Cx1 u0 dl0 by linarith
  then have t9: "\<bar>D - (180 - C)\<bar> \<le> 182 * u"
    unfolding D_def by (rule flb)
  have t10: "\<bar>D - X\<bar> \<le> 1323 * u + 60 * dl"
    unfolding X_def using t6 t7 t9 by linarith
  have X0: "0 < X" "X < 180"
    using Cx0 Cx1 by (simp_all add: X_def)
  have "\<bar>D * 100\<bar> \<le> 18100"
    using t10 X0 u0 dl0 by linarith
  then have t11: "\<bar>E - D * 100\<bar> \<le> 18100 * u"
    unfolding E_def by (rule flb)
  have t12: "\<bar>E - 100 * X\<bar> \<le> 150400 * u + 6000 * dl"
    using t10 t11 by linarith
  have t13: "\<bar>R - E\<bar> \<le> 1 / 2"
    unfolding R_def by (rule c_round_error)
  obtain n :: int where n: "R = of_int n"
    unfolding R_def using c_round_int [of E] by blast
  have "\<bar>R / 100\<bar> \<le> 181"
    using t12 t13 X0 u0 dl0 by linarith
  then have t14: "\<bar>G - R / 100\<bar> \<le> 181 * u"
    unfolding G_def by (rule flb)
  have t15: "\<bar>R / 100 - X\<bar> \<le> 1 / 200 + (1504 * u + 60 * dl)"
    using t12 t13 by linarith
  have t16: "\<bar>G - X\<bar> \<le> 1 / 200 + (1685 * u + 60 * dl)"
    using t14 t15 by linarith
  have fin: "1 / 200 + (1504 * u + 60 * dl) \<le> 1 / 200 + 1 / 10 ^ 12"
    "1 / 200 + (1685 * u + 60 * dl) \<le> 1 / 200 + 1 / 10 ^ 12"
    by (simp_all add: u_def dl_def)
  have a: "\<bar>of_int n / 100 - X\<bar> \<le> 1 / 200 + 1 / 10 ^ 12"
    using t15 fin(1) unfolding n by (rule order_trans)
  have b: "\<bar>G - X\<bar> \<le> 1 / 200 + 1 / 10 ^ 12"
    using t16 fin(2) by (rule order_trans)
  have X: "X = 180 - 360 * arctan (tlength t / radius t) / pi"
    by (simp add: X_def Cx_def th_def m_def)
  have "getAngle atan_d t = fl (of_int n / 100)"
    by (simp add: g G_def n)
  with a b show ?thesis
    unfolding g X [symmetric] by blast
qed

text \<open>
  The rounding errors of \<open>setLengthFromAngle\<close>.  The argument of the tangent is off by
  at most \<open>3 / 10 ^ 15\<close>; for an angle from 0.01 to 179.99 it stays below
  \<open>arctan 11460\<close>, where the derivative of the tangent is at most \<open>1 + 11460\<^sup>2\<close>.
\<close>

lemma tan_perturb:
  fixes x y K :: real
  assumes x: "0 \<le> x" "x \<le> arctan K" and y: "0 \<le> y" "y \<le> arctan K"
  shows "\<bar>tan x - tan y\<bar> \<le> (1 + K\<^sup>2) * \<bar>x - y\<bar>"
proof -
  have step: "tan b - tan a \<le> (1 + K\<^sup>2) * (b - a) \<and> tan a \<le> tan b"
    if ab: "a < b" and a0: "0 \<le> a" and bk: "b \<le> arctan K" for a b :: real
  proof -
    have b2: "b < pi / 2"
      using bk arctan_ubound [of K] by linarith
    have cospos: "0 < cos z" if "a \<le> z" "z \<le> b" for z
    proof (rule cos_gt_zero_pi)
      show "- (pi / 2) < z" using that(1) a0 pi_gt_zero by linarith
      show "z < pi / 2" using that(2) b2 by linarith
    qed
    have der: "(tan has_real_derivative inverse ((cos z)\<^sup>2)) (at z)"
      if "a \<le> z" "z \<le> b" for z
      using cospos [OF that] by (intro DERIV_tan) simp
    from MVT2 [OF ab der]
    obtain z where z: "a < z" "z < b" "tan b - tan a = (b - a) * inverse ((cos z)\<^sup>2)"
      by blast
    have cz: "0 < cos z"
      using z(1,2) by (intro cospos) simp_all
    have sec: "inverse ((cos z)\<^sup>2) = 1 + (tan z)\<^sup>2"
      using tan_sec [of z] cz by (simp add: power_inverse)
    have z2: "z < pi / 2" using z(2) b2 by linarith
    have z0: "0 \<le> z" using z(1) a0 by linarith
    have tz0: "0 \<le> tan z"
      using z0 z2 by (rule tan_pos_pi2_le)
    have "tan z \<le> tan (arctan K)"
    proof (rule tan_mono_le)
      show "- (pi / 2) < z" using z0 pi_gt_zero by linarith
      show "z \<le> arctan K" using z(2) bk by linarith
      show "arctan K < pi / 2" by (rule arctan_ubound)
    qed
    then have tzK: "tan z \<le> K"
      by (simp add: tan_arctan)
    have "(tan z)\<^sup>2 \<le> K\<^sup>2"
      using tzK tz0 by (rule power_mono)
    then have "inverse ((cos z)\<^sup>2) \<le> 1 + K\<^sup>2"
      unfolding sec by simp
    then have "(b - a) * inverse ((cos z)\<^sup>2) \<le> (b - a) * (1 + K\<^sup>2)"
      using ab by (intro mult_left_mono) simp_all
    then have one: "tan b - tan a \<le> (1 + K\<^sup>2) * (b - a)"
      unfolding z(3) by (simp add: mult.commute)
    have two: "tan a \<le> tan b"
    proof (rule tan_mono_le)
      show "- (pi / 2) < a" using a0 pi_gt_zero by linarith
      show "a \<le> b" using ab by simp
      show "b < pi / 2" by (rule b2)
    qed
    from one two show ?thesis by blast
  qed
  consider "x = y" | "x < y" | "y < x"
    by linarith
  then show ?thesis
  proof cases
    case 1
    then show ?thesis by simp
  next
    case 2
    from step [OF 2 x(1) y(2)] 2 show ?thesis by simp
  next
    case 3
    from step [OF 3 y(1) x(2)] 3 show ?thesis by simp
  qed
qed

lemma arctan_large:
  fixes K :: real
  assumes "1 \<le> K"
  shows "pi / 2 - 1 / K \<le> arctan K"
proof -
  have "arctan (1 / K) = sgn K * pi / 2 - arctan K"
    using assms by (intro arctan_inverse) simp
  then have "arctan K = pi / 2 - arctan (1 / K)"
    using assms by simp
  moreover have "arctan (1 / K) \<le> 1 / K"
    using assms by (intro arctan_le_self_pos) simp_all
  ultimately show ?thesis by linarith
qed

lemma setLengthFromAngle_error:
  fixes tan_d :: "real \<Rightarrow> real" and t :: Tool and a :: real
  assumes acc: "\<forall>y. \<bar>tan_d y - tan y\<bar> \<le> \<bar>tan y\<bar> / 2 ^ 52"
    and r: "0 < radius t"
    and a: "1 / 100 \<le> a" "a \<le> 17999 / 100"
  shows "\<bar>tlength (setLengthFromAngle tan_d a t) - radius t * tan ((1 - a / 180) * pi / 2)\<bar>
         \<le> radius t / 10 ^ 6"
proof -
  define u :: real where "u = 1 / 2 ^ 53"
  define dl :: real where "dl = 1 / 1000000000000000"
  define K :: real where "K = 11460"
  define w where "w = 1 - a / 180"
  define x where "x = w * pi / 2"
  define x1 where "x1 = fl (a / 180)"
  define x2 where "x2 = fl (1 - x1)"
  define x3 where "x3 = fl (x2 * M_PI)"
  define x4 where "x4 = fl (x3 / 2)"
  define T where "T = tan_d x4"
  define L where "L = fl (radius t * T)"
  define eta where "eta = 14 * u + dl / 2"
  have u0: "0 \<le> u" "u \<le> 1 / 1000000"
    by (simp_all add: u_def)
  have dl0: "0 \<le> dl" "dl \<le> 1 / 1000000"
    by (simp_all add: dl_def)
  have flb: "\<bar>fl z - z\<bar> \<le> b * u" if "\<bar>z\<bar> \<le> b" for z b
    using fl_bound [OF that] by (simp add: u_def)
  have g: "tlength (setLengthFromAngle tan_d a t) = L"
    by (simp add: setLengthFromAngle_def L_def T_def x4_def x3_def x2_def x1_def)
  have w0: "1 / 18000 \<le> w" "w \<le> 17999 / 18000"
    using a by (simp_all add: w_def)
  have "\<bar>a / 180\<bar> \<le> 1"
    using a by simp
  then have s1: "\<bar>x1 - a / 180\<bar> \<le> 1 * u"
    unfolding x1_def by (rule flb)
  have "\<bar>1 - x1\<bar> \<le> 2"
    using s1 a u0 by linarith
  then have s2: "\<bar>x2 - (1 - x1)\<bar> \<le> 2 * u"
    unfolding x2_def by (rule flb)
  have s3: "\<bar>x2 - w\<bar> \<le> 3 * u"
    unfolding w_def using s1 s2 by linarith
  have x2b: "\<bar>x2\<bar> \<le> 2"
    using s3 w0 u0 by linarith
  have "\<bar>x2 * M_PI\<bar> = \<bar>x2\<bar> * \<bar>M_PI\<bar>"
    by (rule abs_mult)
  also have "\<dots> \<le> 2 * 4"
    using x2b M_PI_range by (intro mult_mono) simp_all
  finally have "\<bar>x2 * M_PI\<bar> \<le> 8"
    by simp
  then have s4: "\<bar>x3 - x2 * M_PI\<bar> \<le> 8 * u"
    unfolding x3_def by (rule flb)
  have "\<bar>(x2 - w) * M_PI\<bar> = \<bar>x2 - w\<bar> * \<bar>M_PI\<bar>"
    by (rule abs_mult)
  also have "\<dots> \<le> (3 * u) * 4"
    using s3 M_PI_range u0 by (intro mult_mono) simp_all
  finally have p1: "\<bar>(x2 - w) * M_PI\<bar> \<le> 12 * u"
    by simp
  have "\<bar>w * (M_PI - pi)\<bar> = \<bar>w\<bar> * \<bar>M_PI - pi\<bar>"
    by (rule abs_mult)
  also have "\<dots> \<le> 1 * dl"
  proof (rule mult_mono)
    show "\<bar>w\<bar> \<le> 1" using w0 by simp
    show "\<bar>M_PI - pi\<bar> \<le> dl" unfolding dl_def by (rule M_PI_error)
  qed simp_all
  finally have p2: "\<bar>w * (M_PI - pi)\<bar> \<le> dl"
    by simp
  have "x2 * M_PI - w * pi = (x2 - w) * M_PI + w * (M_PI - pi)"
    by (simp add: algebra_simps)
  then have s5: "\<bar>x3 - w * pi\<bar> \<le> 20 * u + dl"
    using s4 p1 p2 by linarith
  have wp: "0 \<le> w * pi" "w * pi \<le> 1 * 4"
    using w0 pi_range by (simp, intro mult_mono, simp_all)
  have "\<bar>x3 / 2\<bar> \<le> 4"
    using s5 wp u0 dl0 by linarith
  then have s6: "\<bar>x4 - x3 / 2\<bar> \<le> 4 * u"
    unfolding x4_def by (rule flb)
  have s7: "\<bar>x4 - x\<bar> \<le> eta"
    unfolding x_def eta_def using s5 s6 by linarith
  have eta0: "0 \<le> eta" "eta \<le> 3 / 1000000000000000"
    by (simp_all add: eta_def u_def dl_def)
  have "1 / 18000 * pi \<le> w * pi"
    using w0(1) pi_gt_zero by (intro mult_right_mono) simp_all
  then have xlo: "pi / 36000 \<le> x"
    by (simp add: x_def)
  have "w * pi \<le> 17999 / 18000 * pi"
    using w0(2) pi_gt_zero by (intro mult_right_mono) simp_all
  then have xhi: "x \<le> pi / 2 - pi / 36000"
    by (simp add: x_def)
  have aK: "pi / 2 - 1 / K \<le> arctan K"
    by (rule arctan_large) (simp add: K_def)
  have Kp: "1 / K + eta \<le> pi / 36000"
    using pi_bounds(1) eta0(2) by (simp add: K_def)
  have x0: "0 \<le> x" using xlo pi_gt_zero by linarith
  have xk: "x \<le> arctan K" using xhi aK Kp eta0 by linarith
  have x40: "0 \<le> x4"
    using s7 xlo Kp by (simp add: K_def) 
  have x4k: "x4 \<le> arctan K" using s7 xhi aK Kp by linarith
  have "\<bar>tan x4 - tan x\<bar> \<le> (1 + K\<^sup>2) * \<bar>x4 - x\<bar>"
    by (rule tan_perturb [OF x40 x4k x0 xk])
  also have "\<dots> \<le> (1 + K\<^sup>2) * eta"
    using s7 by (intro mult_left_mono) simp_all
  finally have e3: "\<bar>tan x4 - tan x\<bar> \<le> 131331601 * eta"
    by (simp add: K_def)
  have x42: "x4 < pi / 2"
    using x4k arctan_ubound [of K] by linarith
  have tx0: "0 \<le> tan x4"
    using x40 x42 by (rule tan_pos_pi2_le)
  have "tan x4 \<le> tan (arctan K)"
  proof (rule tan_mono_le)
    show "- (pi / 2) < x4" using x40 pi_gt_zero by linarith
    show "x4 \<le> arctan K" by (rule x4k)
    show "arctan K < pi / 2" by (rule arctan_ubound)
  qed
  then have txK: "tan x4 \<le> 11460"
    by (simp add: tan_arctan K_def)
  have "\<bar>T - tan x4\<bar> \<le> \<bar>tan x4\<bar> / 2 ^ 52"
    unfolding T_def using acc by blast
  also have "\<dots> \<le> 11460 / 2 ^ 52"
    using tx0 txK by (intro divide_right_mono) simp_all
  also have "\<dots> = 22920 * u"
    by (simp add: u_def)
  finally have e2: "\<bar>T - tan x4\<bar> \<le> 22920 * u" .
  have Tb: "\<bar>T\<bar> \<le> 11461"
    using e2 tx0 txK u0 by linarith
  define rr where "rr = radius t"
  have rr0: "0 \<le> rr" using r by (simp add: rr_def)
  have "\<bar>rr * T\<bar> = rr * \<bar>T\<bar>"
    using rr0 by (simp add: abs_mult)
  also have "\<dots> \<le> rr * 11461"
    using Tb rr0 by (intro mult_left_mono) simp_all
  finally have "\<bar>fl (rr * T) - rr * T\<bar> \<le> rr * 11461 * u"
    by (rule flb)
  then have e1: "\<bar>L - rr * T\<bar> \<le> rr * (11461 * u)"
    by (simp add: L_def rr_def mult.assoc)
  have "\<bar>rr * T - rr * tan x4\<bar> = rr * \<bar>T - tan x4\<bar>"
    using rr0 by (simp add: abs_mult flip: right_diff_distrib)
  also have "\<dots> \<le> rr * (22920 * u)"
    using e2 rr0 by (intro mult_left_mono) simp_all
  finally have f2: "\<bar>rr * T - rr * tan x4\<bar> \<le> rr * (22920 * u)" .
  have "\<bar>rr * tan x4 - rr * tan x\<bar> = rr * \<bar>tan x4 - tan x\<bar>"
    using rr0 by (simp add: abs_mult flip: right_diff_distrib)
  also have "\<dots> \<le> rr * (131331601 * eta)"
    using e3 rr0 by (intro mult_left_mono) simp_all
  finally have f3: "\<bar>rr * tan x4 - rr * tan x\<bar> \<le> rr * (131331601 * eta)" .
  have "\<bar>L - rr * tan x\<bar> \<le> rr * (11461 * u) + rr * (22920 * u) + rr * (131331601 * eta)"
    using e1 f2 f3 by linarith
  also have "\<dots> = rr * (11461 * u + 22920 * u + 131331601 * eta)"
    by (simp add: algebra_simps)
  also have "\<dots> \<le> rr * (1 / 10 ^ 6)"
    using rr0 by (intro mult_left_mono) (simp_all add: eta_def u_def dl_def)
  finally have "\<bar>L - rr * tan x\<bar> \<le> rr / 10 ^ 6"
    by simp
  then show ?thesis
    unfolding g by (simp add: rr_def x_def w_def)
qed

lemma exact_angle_inverse:
  assumes "0 < radius t"
  shows "radius t * tan ((1 - (180 - 360 * arctan (tlength t / radius t) / pi) / 180) * pi / 2)
         = tlength t"
proof -
  let ?a = "arctan (tlength t / radius t)"
  have "(1 - (180 - 360 * ?a / pi) / 180) * pi / 2 = ?a"
    by (simp add: field_simps)
  then have "radius t * tan ((1 - (180 - 360 * ?a / pi) / 180) * pi / 2) = radius t * tan ?a"
    by simp
  also have "\<dots> = tlength t"
    using assms by (simp add: tan_arctan)
  finally show ?thesis .
qed

text \<open>
  Claim C9, as the code has it.  Let the C library's \<^verbatim>\<open>atan\<close> and \<^verbatim>\<open>tan\<close> be accurate to
  a relative error of \<open>2 ^ - 52\<close>, one unit in the last place, and let the tool have a
  positive radius and length within \<open>in_double_range\<close>.

  \<^item> \<open>getAngle\<close> returns the double nearest to \<open>n / 100\<close> for an integer \<open>n\<close>; both
    \<open>n / 100\<close> and the value returned are within \<open>1 / 200 + 1 / 10 ^ 12\<close> of the exact
    angle \<open>180 - 360 * arctan (length / radius) / pi\<close>.  So \<open>getAngle\<close> is the exact angle
    rounded to two decimals, up to the rounding errors of the double operations.
  \<^item> \<open>setLengthFromAngle a\<close>, for \<open>a\<close> from 0.01 to 179.99, sets the length to
    \<open>radius * tan ((1 - a / 180) * pi / 2)\<close> within \<open>radius / 10 ^ 6\<close>.
  \<^item> That formula is the inverse of the exact angle: at the exact angle it gives the length
    back.  It is not the inverse of \<open>getAngle\<close>, which rounds; the example after the
    theorem shows a length that is not restored.
\<close>

theorem getAngle_setLengthFromAngle:
  fixes atan_d tan_d :: "real \<Rightarrow> real" and t :: Tool and a :: real
  assumes atan_acc: "\<forall>y. \<bar>atan_d y - arctan y\<bar> \<le> \<bar>arctan y\<bar> / 2 ^ 52"
    and tan_acc: "\<forall>y. \<bar>tan_d y - tan y\<bar> \<le> \<bar>tan y\<bar> / 2 ^ 52"
    and r: "0 < radius t" and l: "0 < tlength t"
    and rng: "in_double_range (radius t)" "in_double_range (tlength t)"
    and a: "1 / 100 \<le> a" "a \<le> 17999 / 100"
  shows "(\<exists>n :: int. getAngle atan_d t = fl (of_int n / 100)
            \<and> \<bar>of_int n / 100 - (180 - 360 * arctan (tlength t / radius t) / pi)\<bar>
                \<le> 1 / 200 + 1 / 10 ^ 12)
         \<and> \<bar>getAngle atan_d t - (180 - 360 * arctan (tlength t / radius t) / pi)\<bar>
             \<le> 1 / 200 + 1 / 10 ^ 12
         \<and> \<bar>tlength (setLengthFromAngle tan_d a t)
              - radius t * tan ((1 - a / 180) * pi / 2)\<bar> \<le> radius t / 10 ^ 6
         \<and> radius t * tan ((1 - (180 - 360 * arctan (tlength t / radius t) / pi) / 180) * pi / 2)
             = tlength t"
  using getAngle_error [OF atan_acc r l] setLengthFromAngle_error [OF tan_acc r a]
    exact_angle_inverse [OF r]
  by blast

lemma fl_accurate: "\<forall>y. \<bar>fl (f y) - f y\<bar> \<le> \<bar>f y\<bar> / 2 ^ 52"
proof
  fix y
  have "\<bar>f y\<bar> / 2 ^ 53 \<le> \<bar>f y\<bar> / 2 ^ 52"
    by (intro divide_left_mono) simp_all
  with fl_error [of "f y"] show "\<bar>fl (f y) - f y\<bar> \<le> \<bar>f y\<bar> / 2 ^ 52"
    by linarith
qed

theorem getAngle_setLengthFromAngle_witness:
  "0 < radius (Tool_new 1 0 UNITS_MM) \<and> 0 < tlength (Tool_new 1 0 UNITS_MM)
   \<and> \<bar>getAngle (\<lambda>y. fl (arctan y)) (Tool_new 1 0 UNITS_MM)
        - (180 - 360 * arctan 10 / pi)\<bar> \<le> 1 / 200 + 1 / 10 ^ 12
   \<and> \<bar>tlength (setLengthFromAngle (\<lambda>y. fl (tan y)) 90 (Tool_new 1 0 UNITS_MM)) - 1\<bar>
       \<le> 1 / 10 ^ 6"
proof -
  let ?t = "Tool_new 1 0 UNITS_MM"
  have f: "radius ?t = 1" "tlength ?t = 10"
    by (simp_all add: Tool_new_def)
  have r: "0 < radius ?t" and l: "0 < tlength ?t"
    unfolding f by simp_all
  have rng: "in_double_range (radius ?t)" "in_double_range (tlength ?t)"
    unfolding f by (simp_all add: in_double_range_def)
  have a: "1 / 100 \<le> (90 :: real)" "(90 :: real) \<le> 17999 / 100"
    by simp_all
  have q: "(1 - 90 / 180) * pi / 2 = pi / 4"
    by simp
  note th = getAngle_setLengthFromAngle [of "\<lambda>y. fl (arctan y)" "\<lambda>y. fl (tan y)" ?t 90,
      OF fl_accurate fl_accurate r l rng a]
  from th have "\<bar>getAngle (\<lambda>y. fl (arctan y)) ?t
        - (180 - 360 * arctan (tlength ?t / radius ?t) / pi)\<bar> \<le> 1 / 200 + 1 / 10 ^ 12"
    by blast
  then have one: "\<bar>getAngle (\<lambda>y. fl (arctan y)) ?t - (180 - 360 * arctan 10 / pi)\<bar>
        \<le> 1 / 200 + 1 / 10 ^ 12"
    unfolding f by simp
  from th have "\<bar>tlength (setLengthFromAngle (\<lambda>y. fl (tan y)) 90 ?t)
              - radius ?t * tan ((1 - 90 / 180) * pi / 2)\<bar> \<le> radius ?t / 10 ^ 6"
    by blast
  then have two: "\<bar>tlength (setLengthFromAngle (\<lambda>y. fl (tan y)) 90 ?t) - 1\<bar> \<le> 1 / 10 ^ 6"
    unfolding f q by (simp add: tan_45)
  from r l one two show ?thesis by blast
qed

lemma default_tool_angle:
  "11421 / 1000 < 180 - 360 * arctan (10 / 1) / pi"
  "180 - 360 * arctan (10 / 1) / pi < 11422 / 1000"
proof -
  have inv: "arctan (10 :: real) = pi / 2 - arctan (1 / 10)"
    using arctan_inverse [of "10 :: real"] by simp
  have e: "180 - 360 * arctan (10 / 1) / pi = 360 * arctan (1 / 10) / pi"
    by (simp add: inv field_simps)
  have "11421 / 1000 * pi < 360 * arctan (1 / 10)"
    using pi_bounds(2) arctan_tenth_bounds(1) by linarith
  then show "11421 / 1000 < 180 - 360 * arctan (10 / 1) / pi"
    unfolding e by (simp add: pos_less_divide_eq)
  have "360 * arctan (1 / 10) < 11422 / 1000 * pi"
    using pi_bounds(1) arctan_tenth_bounds(2) by linarith
  then show "180 - 360 * arctan (10 / 1) / pi < 11422 / 1000"
    unfolding e by (simp add: pos_divide_less_eq)
qed

lemma default_tool_getAngle:
  "getAngle (\<lambda>y. fl (arctan y)) (Tool_new 1 0 UNITS_MM) = fl (1142 / 100)"
proof -
  let ?t = "Tool_new 1 0 UNITS_MM"
  have f: "radius ?t = 1" "tlength ?t = 10"
    by (simp_all add: Tool_new_def)
  have r: "0 < radius ?t" and l: "0 < tlength ?t"
    unfolding f by simp_all
  from getAngle_error [of "\<lambda>y. fl (arctan y)" ?t, OF fl_accurate r l]
  obtain n :: int where n: "getAngle (\<lambda>y. fl (arctan y)) ?t = fl (of_int n / 100)"
    "\<bar>of_int n / 100 - (180 - 360 * arctan (tlength ?t / radius ?t) / pi)\<bar>
       \<le> 1 / 200 + 1 / 10 ^ 12"
    by blast
  have "\<bar>of_int n / 100 - (180 - 360 * arctan (10 / 1) / pi)\<bar> \<le> 1 / 200 + 1 / 1000000000000"
    using n(2) unfolding f by simp
  then have "(1141 :: real) < of_int n" "of_int n < (1143 :: real)"
    using default_tool_angle by linarith+
  then have "1141 < n" "n < 1143"
    by linarith+
  then have "n = 1142"
    by linarith
  then show ?thesis
    using n(1) by simp
qed

lemma restore_chain:
  "fl (1142 / 100) = 6428888468071383 / 562949953421312"
  "fl (6428888468071383 / 562949953421312 / 180) = 2285827010869825 / 36028797018963968"
  "fl (1 - 2285827010869825 / 36028797018963968) = 527233906376471 / 562949953421312"
  "fl (527233906376471 / 562949953421312 * (884279719003555 / 281474976710656))
     = 828177083497885 / 281474976710656"
  "fl (828177083497885 / 281474976710656 / 2) = 828177083497885 / 562949953421312"
  by (subst fl_eval [of _ 49], simp_all add: round_even_def Let_def)
    (subst fl_eval [of _ 56], simp_all add: round_even_def Let_def,
     subst fl_eval [of _ 53], simp_all add: round_even_def Let_def,
     subst fl_eval [of _ 51], simp_all add: round_even_def Let_def,
     subst fl_eval [of _ 52], simp_all add: round_even_def Let_def)

lemma restore_tan: "20001 / 2000 \<le> tan (828177083497885 / 562949953421312 :: real)"
proof -
  let ?x = "828177083497885 / 562949953421312 :: real"
  have inv: "arctan (20001 / 2000 :: real) = pi / 2 - arctan (2000 / 20001)"
    using arctan_inverse [of "20001 / 2000 :: real"] by simp
  have "(\<Sum>i<2 * 1. (- 1) ^ i * (1 / real (i * 2 + 1) * (2000 / 20001) ^ (i * 2 + 1)))
        \<le> arctan (2000 / 20001 :: real)"
    by (rule arctan_series_bounds(1)) simp_all
  then have "996617 / 10000000 \<le> arctan (2000 / 20001 :: real)"
    by (simp add: eval_nat_numeral)
  then have le: "arctan (20001 / 2000) \<le> ?x"
    unfolding inv using pi_bounds(2) by linarith
  have "tan (arctan (20001 / 2000)) \<le> tan ?x"
  proof (rule tan_mono_le)
    show "- (pi / 2) < arctan (20001 / 2000 :: real)" by (rule arctan_lbound)
    show "arctan (20001 / 2000) \<le> ?x" by (rule le)
    show "?x < pi / 2" using pi_bounds(1) by linarith
  qed
  then show ?thesis
    by (simp add: tan_arctan)
qed

text \<open>
  Claim C9 as stated fails for the default metric tool (length 10, radius 1), here with
  a correctly rounded \<^verbatim>\<open>atan\<close> and \<^verbatim>\<open>tan\<close>: its angle is the double nearest to 11.42,
  which lies below 11.42, and the length set from that angle is above 10.0004, not 10.
\<close>

theorem default_tool_angle_counterexample:
  "0 < radius (Tool_new 1 0 UNITS_MM) \<and> 0 < tlength (Tool_new 1 0 UNITS_MM)
   \<and> tlength (Tool_new 1 0 UNITS_MM) = 10
   \<and> getAngle (\<lambda>y. fl (arctan y)) (Tool_new 1 0 UNITS_MM) = fl (1142 / 100)
   \<and> fl (1142 / 100) < 1142 / 100
   \<and> 10 + 1 / 2500
       < tlength (setLengthFromAngle (\<lambda>y. fl (tan y))
                    (getAngle (\<lambda>y. fl (arctan y)) (Tool_new 1 0 UNITS_MM))
                    (Tool_new 1 0 UNITS_MM))"
proof -
  let ?t = "Tool_new 1 0 UNITS_MM"
  let ?x = "828177083497885 / 562949953421312 :: real"
  have f: "radius ?t = 1" "tlength ?t = 10"
    by (simp_all add: Tool_new_def)
  have r: "0 < radius ?t" and l: "0 < tlength ?t"
    unfolding f by simp_all
  have "tlength (setLengthFromAngle (\<lambda>y. fl (tan y)) (fl (1142 / 100)) ?t)
        = fl (radius ?t * fl (tan (fl (fl (fl (1 - fl (fl (1142 / 100) / 180)) * M_PI) / 2))))"
    by (simp add: setLengthFromAngle_def)
  also have "\<dots> = fl (1 * fl (tan ?x))"
    unfolding f M_PI_value restore_chain ..
  finally have s: "tlength (setLengthFromAngle (\<lambda>y. fl (tan y)) (fl (1142 / 100)) ?t)
        = fl (fl (tan ?x))"
    by simp
  have t0: "20001 / 2000 \<le> tan ?x"
    by (rule restore_tan)
  have e: "\<bar>fl z - z\<bar> \<le> \<bar>z\<bar> / 9007199254740992" for z
    using fl_error [of z] by simp
  have "\<bar>fl (tan ?x) - tan ?x\<bar> \<le> \<bar>tan ?x\<bar> / 9007199254740992"
    by (rule e)
  then have t1: "10 + 1 / 2400 \<le> fl (tan ?x)"
    using t0 by linarith
  have "\<bar>fl (fl (tan ?x)) - fl (tan ?x)\<bar> \<le> \<bar>fl (tan ?x)\<bar> / 9007199254740992"
    by (rule e)
  then have t2: "10 + 1 / 2500 < fl (fl (tan ?x))"
    using t1 by linarith
  have below: "fl (1142 / 100) < 1142 / 100"
    unfolding restore_chain(1) by simp
  from r l f(2) default_tool_getAngle below t2 show ?thesis
    unfolding default_tool_getAngle s by blast
qed

section \<open>Round trip of file names\<close>

lemma parseU8_hex_codes:
  "parseU8_hex ''0A'' = Inr 10" "parseU8_hex ''0B'' = Inr 11" "parseU8_hex ''0D'' = Inr 13"
  "parseU8_hex ''25'' = Inr 37" "parseU8_hex ''20'' = Inr 32" "parseU8_hex ''07'' = Inr 7"
  by (simp_all add: parseU8_hex_def hexDigit_def)

lemma char_of_codes:
  "char_of (10 :: nat) = CHR 0x0A" "char_of (11 :: nat) = CHR 0x0B"
  "char_of (13 :: nat) = CHR 0x0D" "char_of (37 :: nat) = CHR ''%''"
  "char_of (32 :: nat) = CHR '' ''" "char_of (7 :: nat) = CHR 0x07"
  by code_simp+

lemma decodeLoop_escape:
  assumes "parseU8_hex [a, b] = Inr v"
  shows "decodeLoop (pre @ CHR ''%'' # a # b # rest) (length pre) acc
         = decodeLoop ((pre @ [CHR ''%'', a, b]) @ rest) (length (pre @ [CHR ''%'', a, b]))
             (acc @ [char_of v])"
  using assms
  by (subst decodeLoop.simps) (simp add: size_minus_2_def nth_append)

lemma decodeLoop_plain:
  assumes "c \<noteq> CHR ''%''"
  shows "decodeLoop (pre @ c # rest) (length pre) acc
         = decodeLoop ((pre @ [c]) @ rest) (length (pre @ [c])) (acc @ [c])"
  using assms
  by (subst decodeLoop.simps) (simp add: nth_append)

lemma decodeLoop_done: "decodeLoop fname (length fname) acc = Inr acc"
  by (subst decodeLoop.simps) simp

lemma decodeLoop_encodeFilename:
  "decodeLoop (pre @ encodeFilename s) (length pre) acc
   = Inr (acc @ map (\<lambda>c. if c = CHR 0x09 then CHR 0x07 else c) s)"
proof (induction s arbitrary: pre acc)
  case Nil
  then show ?case
    using decodeLoop_done [of pre acc] by simp
next
  case (Cons c cs)
  note step = Cons.IH
  consider (tab) "c = CHR 0x09" | (lf) "c = CHR 0x0A" | (vt) "c = CHR 0x0B" | (cr) "c = CHR 0x0D"
    | (pc) "c = CHR ''%''" | (sp) "c = CHR '' ''"
    | (plain) "c \<noteq> CHR 0x09" "c \<noteq> CHR 0x0A" "c \<noteq> CHR 0x0B" "c \<noteq> CHR 0x0D" "c \<noteq> CHR ''%''"
        "c \<noteq> CHR '' ''"
    by blast
  then show ?case
  proof cases
    case tab
    show ?thesis
      using step [of "pre @ ''%07''" "acc @ [CHR 0x07]"]
        decodeLoop_escape [OF parseU8_hex_codes(6), of pre "encodeFilename cs" acc]
      by (simp add: tab char_of_codes)
  next
    case lf
    show ?thesis
      using step [of "pre @ ''%0A''" "acc @ [c]"]
        decodeLoop_escape [OF parseU8_hex_codes(1), of pre "encodeFilename cs" acc]
      by (simp add: lf char_of_codes)
  next
    case vt
    show ?thesis
      using step [of "pre @ ''%0B''" "acc @ [c]"]
        decodeLoop_escape [OF parseU8_hex_codes(2), of pre "encodeFilename cs" acc]
      by (simp add: vt char_of_codes)
  next
    case cr
    show ?thesis
      using step [of "pre @ ''%0D''" "acc @ [c]"]
        decodeLoop_escape [OF parseU8_hex_codes(3), of pre "encodeFilename cs" acc]
      by (simp add: cr char_of_codes)
  next
    case pc
    show ?thesis
      using step [of "pre @ ''%25''" "acc @ [c]"]
        decodeLoop_escape [OF parseU8_hex_codes(4), of pre "encodeFilename cs" acc]
      by (simp add: pc char_of_codes)
  next
    case sp
    show ?thesis
      using step [of "pre @ ''%20''" "acc @ [c]"]
        decodeLoop_escape [OF parseU8_hex_codes(5), of pre "encodeFilename cs" acc]
      by (simp add: sp char_of_codes)
  next
    case plain
    show ?thesis
      using step [of "pre @ [c]" "acc @ [c]"]
        decodeLoop_plain [OF plain(5), of pre "encodeFilename cs" acc] plain
      by simp
  qed
qed

lemma decode_encode_result:
  "decodeFilename (encodeFilename s)
   = Inr (map (\<lambda>c. if c = CHR 0x09 then CHR 0x07 else c) s)"
  using decodeLoop_encodeFilename [of "[]" s "[]"] by (simp add: decodeFilename_def)

lemma decode_encode_without_tab:
  "CHR 0x09 \<notin> set s \<Longrightarrow> decodeFilename (encodeFilename s) = Inr s"
proof -
  assume "CHR 0x09 \<notin> set s"
  then have "map (\<lambda>c. if c = CHR 0x09 then CHR 0x07 else c) s = s"
    by (induction s) auto
  then show ?thesis
    by (simp add: decode_encode_result)
qed

lemma decode_encode_with_tab:
  "CHR 0x09 \<in> set s \<Longrightarrow> decodeFilename (encodeFilename s) \<noteq> Inr s"
proof
  assume tab: "CHR 0x09 \<in> set s"
    and same: "decodeFilename (encodeFilename s) = Inr s"
  from same have "map (\<lambda>c. if c = CHR 0x09 then CHR 0x07 else c) s = s"
    by (simp add: decode_encode_result)
  then have "CHR 0x09 \<notin> set s"
    by (induction s) (auto split: if_splits)
  with tab show False by simp
qed

text \<open>
  Claim C3 holds for every name without a tab and fails for every name with one.  At
  the name that is a single tab, \<open>encodeFilename\<close> writes \<^verbatim>\<open>%07\<close> (the code of tab is
  \<^verbatim>\<open>09\<close>), and \<open>decodeFilename\<close> reads \<^verbatim>\<open>%07\<close> back as the character with code 7.
\<close>

theorem decode_encode_tab:
  "encodeFilename [CHR 0x09] = ''%07''
   \<and> decodeFilename (encodeFilename [CHR 0x09]) = Inr [CHR 0x07]
   \<and> decodeFilename (encodeFilename [CHR 0x09]) \<noteq> Inr [CHR 0x09]"
  by (simp add: decodeFilename_def decodeLoop.simps size_minus_2_def parseU8_hex_def
      hexDigit_def char_of_codes)

section \<open>Round trip of a tool through XML and JSON\<close>

















section \<open>Errors of reading a tool from XML attributes\<close>

text \<open>
  Claim C5, as the code has it.  Reading a tool from XML attributes throws if and only if
  the length attribute is missing, or both the radius and the diameter attribute are
  missing, or a numeric attribute that is read does not parse: the length, the radius,
  the diameter when there is no radius, or the snub diameter.  A units or shape token
  that does not parse never aborts the read: after a successful read the units and the
  shape are the parsed ones when the attribute is present and parses, and the previous
  ones otherwise.
\<close>

theorem Tool_read_xml_throws_iff:
  "((\<exists>e. Tool_read_xml pd attrs t = Inl e) \<longleftrightarrow>
      attrs ''length'' = None
      \<or> (attrs ''radius'' = None \<and> attrs ''diameter'' = None)
      \<or> (\<exists>s e. attrs ''length'' = Some s \<and> pd s = Inl e)
      \<or> (\<exists>s e. attrs ''radius'' = Some s \<and> pd s = Inl e)
      \<or> (\<exists>s e. attrs ''radius'' = None \<and> attrs ''diameter'' = Some s \<and> pd s = Inl e)
      \<or> (\<exists>s e. attrs ''snub_diameter'' = Some s \<and> pd s = Inl e))
   \<and> (\<forall>t'. Tool_read_xml pd attrs t = Inr t' \<longrightarrow>
        units t' = (case attrs ''units'' of
                      None \<Rightarrow> units t
                    | Some s \<Rightarrow> (case ToolUnits_parse s of
                                   Inl e \<Rightarrow> units t
                                 | Inr u \<Rightarrow> u))
        \<and> shape t' = (case attrs ''shape'' of
                        None \<Rightarrow> shape t
                      | Some s \<Rightarrow> (case ToolShape_parse s of
                                     Inl e \<Rightarrow> shape t
                                   | Inr sh \<Rightarrow> sh)))"
proof -
  have throws: "(\<exists>e. Tool_read_xml pd attrs t = Inl e) \<longleftrightarrow>
      attrs ''length'' = None
      \<or> (attrs ''radius'' = None \<and> attrs ''diameter'' = None)
      \<or> (\<exists>s e. attrs ''length'' = Some s \<and> pd s = Inl e)
      \<or> (\<exists>s e. attrs ''radius'' = Some s \<and> pd s = Inl e)
      \<or> (\<exists>s e. attrs ''radius'' = None \<and> attrs ''diameter'' = Some s \<and> pd s = Inl e)
      \<or> (\<exists>s e. attrs ''snub_diameter'' = Some s \<and> pd s = Inl e)"
    unfolding Tool_read_xml_def Let_def
    by (auto split: option.splits sum.splits)
  have kept: "units t' = (case attrs ''units'' of
                      None \<Rightarrow> units t
                    | Some s \<Rightarrow> (case ToolUnits_parse s of
                                   Inl e \<Rightarrow> units t
                                 | Inr u \<Rightarrow> u))
        \<and> shape t' = (case attrs ''shape'' of
                        None \<Rightarrow> shape t
                      | Some s \<Rightarrow> (case ToolShape_parse s of
                                     Inl e \<Rightarrow> shape t
                                   | Inr sh \<Rightarrow> sh))"
    if "Tool_read_xml pd attrs t = Inr t'" for t'
    using that unfolding Tool_read_xml_def Let_def
    by (auto split: option.splits sum.splits)
  from throws kept show ?thesis by blast
qed

lemma unknown_tokens:
  "ToolUnits_parse ''furlong'' = Inl (InvalidValue ''furlong'')"
  "ToolShape_parse ''star'' = Inl (InvalidValue ''star'')"
  by (simp_all add: ToolUnits_parse_def ToolShape_parse_def toUpperChar_def Let_def)

theorem Tool_read_xml_throws_iff_witness:
  "Tool_read_xml parseDecimal
     [''units'' \<mapsto> ''furlong'', ''shape'' \<mapsto> ''star'', ''length'' \<mapsto> ''0.5'',
      ''radius'' \<mapsto> ''1''] (Tool_new 1 0 UNITS_MM)
   = Inr ((Tool_new 1 0 UNITS_MM)\<lparr>tlength := 1 / 2\<rparr>)
   \<and> units ((Tool_new 1 0 UNITS_MM)\<lparr>tlength := 1 / 2\<rparr>) = units (Tool_new 1 0 UNITS_MM)
   \<and> shape ((Tool_new 1 0 UNITS_MM)\<lparr>tlength := 1 / 2\<rparr>) = shape (Tool_new 1 0 UNITS_MM)
   \<and> (\<exists>e. Tool_read_xml parseDecimal [''radius'' \<mapsto> ''1''] (Tool_new 1 0 UNITS_MM) = Inl e)
   \<and> (\<exists>e. Tool_read_xml parseDecimal [''length'' \<mapsto> ''10''] (Tool_new 1 0 UNITS_MM) = Inl e)"
proof -
  let ?a = "[''units'' \<mapsto> ''furlong'', ''shape'' \<mapsto> ''star'', ''length'' \<mapsto> ''0.5'',
      ''radius'' \<mapsto> ''1'']"
  let ?T = "Tool_new 1 0 UNITS_MM"
  have run: "Tool_read_xml parseDecimal ?a ?T = Inr (?T\<lparr>tlength := 1 / 2\<rparr>)"
    by (simp add: Tool_read_xml_def Let_def unknown_tokens parseDecimal_examples Tool_new_def
        fl_one fl_one_half)
  from Tool_read_xml_throws_iff [of parseDecimal ?a ?T] run
  have kept: "units (?T\<lparr>tlength := 1 / 2\<rparr>) = units ?T \<and> shape (?T\<lparr>tlength := 1 / 2\<rparr>) = shape ?T"
    by (simp add: unknown_tokens)
  have no_len: "\<exists>e. Tool_read_xml parseDecimal [''radius'' \<mapsto> ''1''] ?T = Inl e"
    using Tool_read_xml_throws_iff [of parseDecimal "[''radius'' \<mapsto> ''1'']" ?T] by simp
  have no_rad: "\<exists>e. Tool_read_xml parseDecimal [''length'' \<mapsto> ''10''] ?T = Inl e"
    using Tool_read_xml_throws_iff [of parseDecimal "[''length'' \<mapsto> ''10'']" ?T] by simp
  from run kept no_len no_rad show ?thesis by blast
qed

text \<open>
  Claim C5 as stated fails when a numeric attribute does not parse: with the length
  \<^verbatim>\<open>1e309\<close>, which is beyond the largest double, and a radius, both attributes are
  present and the read throws.
\<close>

theorem unparsable_length_counterexample:
  "[''length'' \<mapsto> ''1e309'', ''radius'' \<mapsto> ''1''] ''length'' = Some ''1e309''
   \<and> [''length'' \<mapsto> ''1e309'', ''radius'' \<mapsto> ''1''] ''radius'' = Some ''1''
   \<and> Tool_read_xml parseDecimal [''length'' \<mapsto> ''1e309'', ''radius'' \<mapsto> ''1'']
        (Tool_new 1 0 UNITS_MM)
      = Inl (InvalidValue ''1e309'')"
  by (simp add: Tool_read_xml_def Let_def parseDecimal_examples)

end
